theory Spec2Isabelle
  imports Complex_Main
begin

section \<open>Values exchanged with the collaborators\<close>

text \<open>
  The orchestrator handles decoded JSON: the body returned by the completion endpoint, the
  tool calls inside it, the arguments of a tool and the value a tool returns are all
  \<^verbatim>\<open>Dict[str, Any]\<close> or \<^verbatim>\<open>Any\<close> in the source. Python's \<^verbatim>\<open>None\<close> is \<open>JNull\<close>; an object
  keeps its items as an association list, looked up with \<open>map_of\<close>.
\<close>

datatype json =
    JNull
  | JBool bool
  | JInt int
  | JFloat rat
  | JStr string
  | JArr "json list"
  | JObj "(string \<times> json) list"

text \<open>
  Exceptions are values. The first five are raised by the interpreter and by pydantic at
  the places marked below; \<open>Raised msg\<close> is an exception raised by a collaborator (the
  completion client, the vector store, the file system) whose \<^verbatim>\<open>str()\<close> is \<open>msg\<close>.
\<close>

datatype exc =
    KeyError json
  | IndexError
  | TypeError
  | AttributeError
  | ValidationError
  | Raised string

text \<open>Truth value of a Python object, as \<^verbatim>\<open>if x:\<close> tests it.\<close>

fun py_truthy :: "json \<Rightarrow> bool" where
  "py_truthy JNull = False"
| "py_truthy (JBool b) = b"
| "py_truthy (JInt n) = (n \<noteq> 0)"
| "py_truthy (JFloat x) = (x \<noteq> 0)"
| "py_truthy (JStr s) = (s \<noteq> [])"
| "py_truthy (JArr xs) = (xs \<noteq> [])"
| "py_truthy (JObj kvs) = (kvs \<noteq> [])"

text \<open>Lists and dicts are unhashable: using one as a dict key raises \<^verbatim>\<open>TypeError\<close>.\<close>

fun py_hashable :: "json \<Rightarrow> bool" where
  "py_hashable (JArr xs) = False"
| "py_hashable (JObj kvs) = False"
| "py_hashable v = True"

text \<open>\<^verbatim>\<open>x[k]\<close> for a string key \<open>k\<close>: only a dict can be subscripted by a string.\<close>

fun py_getitem :: "json \<Rightarrow> string \<Rightarrow> exc + json" where
  "py_getitem (JObj kvs) k =
     (case map_of kvs k of None \<Rightarrow> Inl (KeyError (JStr k)) | Some v \<Rightarrow> Inr v)"
| "py_getitem v k = Inl TypeError"

text \<open>\<^verbatim>\<open>x[0]\<close>: the first element of a list or string; a dict with string keys has no key 0.\<close>

fun py_getitem0 :: "json \<Rightarrow> exc + json" where
  "py_getitem0 (JArr xs) = (case xs of [] \<Rightarrow> Inl IndexError | x # rest \<Rightarrow> Inr x)"
| "py_getitem0 (JStr s) = (case s of [] \<Rightarrow> Inl IndexError | c # rest \<Rightarrow> Inr (JStr [c]))"
| "py_getitem0 (JObj kvs) = Inl (KeyError (JInt 0))"
| "py_getitem0 v = Inl TypeError"

text \<open>\<^verbatim>\<open>x.get(k, d)\<close>: only a dict has the method.\<close>

fun py_get :: "json \<Rightarrow> string \<Rightarrow> json \<Rightarrow> exc + json" where
  "py_get (JObj kvs) k d = Inr (case map_of kvs k of None \<Rightarrow> d | Some v \<Rightarrow> v)"
| "py_get v k d = Inl AttributeError"

text \<open>\<^verbatim>\<open>for x in v\<close>: a list yields its elements, a dict its keys, a string its characters.\<close>

fun py_iter :: "json \<Rightarrow> exc + json list" where
  "py_iter (JArr xs) = Inr xs"
| "py_iter (JObj kvs) = Inr (map (\<lambda>kv. JStr (fst kv)) kvs)"
| "py_iter (JStr s) = Inr (map (\<lambda>c. JStr [c]) s)"
| "py_iter v = Inl TypeError"

fun py_len :: "json \<Rightarrow> exc + int" where
  "py_len (JStr s) = Inr (int (length s))"
| "py_len (JArr xs) = Inr (int (length xs))"
| "py_len (JObj kvs) = Inr (int (length kvs))"
| "py_len v = Inl TypeError"

text \<open>\<^verbatim>\<open>xs[-1]\<close> raises \<^verbatim>\<open>IndexError\<close> on the empty list.\<close>

definition py_last :: "'a list \<Rightarrow> exc + 'a" where
  "py_last xs = (if xs = [] then Inl IndexError else Inr (last xs))"

section \<open>Messages and the environment\<close>

text \<open>
  A message of the running conversation is a dict with the keys \<^verbatim>\<open>role\<close> and \<^verbatim>\<open>content\<close>,
  and \<^verbatim>\<open>tool_calls\<close> or \<^verbatim>\<open>tool_call_id\<close> where the code sets them (\<open>None\<close>: key absent).
\<close>

record message =
  role :: string
  content :: json
  m_tool_calls :: "json option"
  m_tool_call_id :: "json option"

text \<open>\<^verbatim>\<open>ChatMessage\<close> of models.py: both fields are validated strings.\<close>

record ChatMessage =
  cm_role :: string
  cm_content :: string

text \<open>\<^verbatim>\<open>ToolResponse\<close> of models.py; \<^verbatim>\<open>result=None\<close> is \<open>JNull\<close>.\<close>

record ToolResponse =
  tool_call_id :: string
  result :: json
  error :: "string option"

text \<open>
  Everything outside the repository's own control flow is a parameter: the vector store's
  search, the completion endpoint, the JSON codec, the interpreter's rendering of values
  and built-in exceptions, and the file system. Each effectful call takes the state \<open>'w\<close>
  of the outside world and returns the new one, so a collaborator may answer differently
  each time and a tool may leave side effects behind.
\<close>

record 'w env =
  vector_store_search :: "json \<Rightarrow> nat \<Rightarrow> 'w \<Rightarrow> (exc + json list) \<times> 'w"
  chat_completion :: "message list \<Rightarrow> 'w \<Rightarrow> (exc + json) \<times> 'w"
  json_loads :: "string \<Rightarrow> exc + json"
  json_dumps :: "json \<Rightarrow> string"
  exc_text :: "exc \<Rightarrow> string"
  py_repr :: "json \<Rightarrow> string"
  path_exists :: "string \<Rightarrow> 'w \<Rightarrow> (exc + bool) \<times> 'w"
  path_is_dir :: "string \<Rightarrow> 'w \<Rightarrow> (exc + bool) \<times> 'w"
  path_iterdir :: "string \<Rightarrow> 'w \<Rightarrow> (exc + string list) \<times> 'w"
  path_stat_size :: "string \<Rightarrow> 'w \<Rightarrow> (exc + int) \<times> 'w"
  path_unlink :: "string \<Rightarrow> 'w \<Rightarrow> (exc + unit) \<times> 'w"
  open_read :: "string \<Rightarrow> 'w \<Rightarrow> (exc + string) \<times> 'w"
  open_write :: "string \<Rightarrow> json \<Rightarrow> 'w \<Rightarrow> (exc + unit) \<times> 'w"

text \<open>\<^verbatim>\<open>str(e)\<close>: the message of a collaborator's exception, the interpreter's text otherwise.\<close>

definition str_exc :: "'w env \<Rightarrow> exc \<Rightarrow> string" where
  "str_exc env e = (case e of Raised msg \<Rightarrow> msg | _ \<Rightarrow> exc_text env e)"

text \<open>A value inside an f-string: a string stands for itself.\<close>

definition str_json :: "'w env \<Rightarrow> json \<Rightarrow> string" where
  "str_json env v = (case v of JStr s \<Rightarrow> s | _ \<Rightarrow> py_repr env v)"

section \<open>The tool registry (tools.py)\<close>

definition tool_names :: "string list" where
  "tool_names = [''get_map'', ''apply_patch'', ''search_logs'', ''run_tests'', ''file_operations'']"

text \<open>
  \<^verbatim>\<open>f(**arguments)\<close> raises \<^verbatim>\<open>TypeError\<close> when a keyword is not a parameter of \<open>f\<close> or a
  parameter without default is missing.
\<close>

definition bind_kwargs :: "string list \<Rightarrow> string list \<Rightarrow> (string \<times> json) list \<Rightarrow> exc + unit" where
  "bind_kwargs required optional kvs =
     (if list_all (\<lambda>k. k \<in> set (required @ optional)) (map fst kvs)
         \<and> list_all (\<lambda>r. r \<in> set (map fst kvs)) required
      then Inr () else Inl TypeError)"

text \<open>The value bound to a parameter; an optional parameter defaults to \<^verbatim>\<open>None\<close>.\<close>

definition kwarg :: "(string \<times> json) list \<Rightarrow> string \<Rightarrow> json" where
  "kwarg kvs k = (case map_of kvs k of None \<Rightarrow> JNull | Some v \<Rightarrow> v)"

definition mock_data :: "(string \<times> json) list" where
  "mock_data =
     [(''boost_target'', JObj
         [(''anomalies'', JArr
             [JObj [(''id'', JInt 1), (''type'', JStr ''pressure_drop''), (''severity'', JStr ''high'')],
              JObj [(''id'', JInt 2), (''type'', JStr ''temperature_spike''), (''severity'', JStr ''medium'')]]),
          (''status'', JStr ''active''),
          (''last_updated'', JStr ''2024-01-15T10:30:00Z'')]),
      (''engine_params'', JObj
         [(''rpm'', JInt 2500), (''temperature'', JInt 85), (''pressure'', JFloat (23 / 10))])]"

definition get_map :: "json \<Rightarrow> exc + json" where
  "get_map key =
     (if \<not> py_hashable key then Inl TypeError
      else case (case key of JStr k \<Rightarrow> map_of mock_data k | _ \<Rightarrow> None) of
             Some d \<Rightarrow> Inr (JObj [(''key'', key), (''data'', d)])
           | None \<Rightarrow> Inr (JObj [(''key'', key), (''data'', JNull), (''error'', JStr ''Key not found'')]))"

definition apply_patch :: "json \<Rightarrow> json \<Rightarrow> json" where
  "apply_patch repo patch =
     JObj [(''repo'', repo),
           (''patch_applied'', JBool True),
           (''changes'', JArr [JStr ''file1.py'', JStr ''file2.py'']),
           (''tests_passed'', JBool True),
           (''message'', JStr ''Patch applied successfully'')]"

definition search_logs :: "'w env \<Rightarrow> json \<Rightarrow> json \<Rightarrow> json" where
  "search_logs env pattern log_path =
     JObj [(''pattern'', pattern),
           (''matches'', JArr
              [JObj [(''file'', JStr ''app.log''), (''line'', JInt 123),
                     (''content'', JStr (''Found: '' @ str_json env pattern))],
               JObj [(''file'', JStr ''error.log''), (''line'', JInt 45),
                     (''content'', JStr (''Error: '' @ str_json env pattern))]]),
           (''total_matches'', JInt 2)]"

definition run_tests :: "json \<Rightarrow> json \<Rightarrow> json" where
  "run_tests project_path test_pattern =
     JObj [(''project_path'', project_path),
           (''tests_run'', JInt 15),
           (''tests_passed'', JInt 14),
           (''tests_failed'', JInt 1),
           (''duration'', JStr ''2.3s''),
           (''status'', JStr ''partial_success'')]"

text \<open>
  The body of \<^verbatim>\<open>file_operations\<close> inside its \<^verbatim>\<open>try\<close>: \<^verbatim>\<open>Path(path)\<close> raises \<^verbatim>\<open>TypeError\<close> on
  anything but a string, and every call into the file system may raise.
\<close>

definition file_operations_try :: "'w env \<Rightarrow> json \<Rightarrow> json \<Rightarrow> json \<Rightarrow> 'w \<Rightarrow> (exc + json) \<times> 'w" where
  "file_operations_try env operation path text_arg w =
     (case path of
        JStr p \<Rightarrow>
          if operation = JStr ''read'' then
            (case path_exists env p w of
               (Inl e, w1) \<Rightarrow> (Inl e, w1)
             | (Inr ex, w1) \<Rightarrow>
                 if \<not> ex then (Inr (JObj [(''error'', JStr (''File not found: '' @ p))]), w1)
                 else (case open_read env p w1 of
                         (Inl e, w2) \<Rightarrow> (Inl e, w2)
                       | (Inr txt, w2) \<Rightarrow>
                           (case path_stat_size env p w2 of
                              (Inl e, w3) \<Rightarrow> (Inl e, w3)
                            | (Inr n, w3) \<Rightarrow>
                                (Inr (JObj [(''content'', JStr txt), (''size'', JInt n)]), w3))))
          else if operation = JStr ''write'' then
            (if text_arg = JNull
             then (Inr (JObj [(''error'', JStr ''Content required for write operation'')]), w)
             else (case open_write env p text_arg w of
                     (Inl e, w1) \<Rightarrow> (Inl e, w1)
                   | (Inr u, w1) \<Rightarrow>
                       (case py_len text_arg of
                          Inl e \<Rightarrow> (Inl e, w1)
                        | Inr n \<Rightarrow>
                            (Inr (JObj [(''message'', JStr (''File written: '' @ p)),
                                        (''size'', JInt n)]), w1))))
          else if operation = JStr ''list'' then
            (case path_exists env p w of
               (Inl e, w1) \<Rightarrow> (Inl e, w1)
             | (Inr ex, w1) \<Rightarrow>
                 if \<not> ex then (Inr (JObj [(''error'', JStr (''Path not found: '' @ p))]), w1)
                 else (case path_is_dir env p w1 of
                         (Inl e, w2) \<Rightarrow> (Inl e, w2)
                       | (Inr d, w2) \<Rightarrow>
                           if d then
                             (case path_iterdir env p w2 of
                                (Inl e, w3) \<Rightarrow> (Inl e, w3)
                              | (Inr files, w3) \<Rightarrow>
                                  (Inr (JObj [(''files'', JArr (map JStr files)),
                                              (''count'', JInt (int (length files)))]), w3))
                           else (Inr (JObj [(''error'', JStr ''Path is not a directory'')]), w2)))
          else if operation = JStr ''delete'' then
            (case path_exists env p w of
               (Inl e, w1) \<Rightarrow> (Inl e, w1)
             | (Inr ex, w1) \<Rightarrow>
                 if \<not> ex then (Inr (JObj [(''error'', JStr (''File not found: '' @ p))]), w1)
                 else (case path_unlink env p w1 of
                         (Inl e, w2) \<Rightarrow> (Inl e, w2)
                       | (Inr u, w2) \<Rightarrow>
                           (Inr (JObj [(''message'', JStr (''File deleted: '' @ p))]), w2)))
          else (Inr (JObj [(''error'', JStr (''Unknown operation: '' @ str_json env operation))]), w)
      | _ \<Rightarrow> (Inl TypeError, w))"

text \<open>\<^verbatim>\<open>except Exception as e: return {"error": str(e)}\<close>\<close>

definition file_operations :: "'w env \<Rightarrow> json \<Rightarrow> json \<Rightarrow> json \<Rightarrow> 'w \<Rightarrow> json \<times> 'w" where
  "file_operations env operation path text_arg w =
     (case file_operations_try env operation path text_arg w of
        (Inl e, w') \<Rightarrow> (JObj [(''error'', JStr (str_exc env e))], w')
      | (Inr v, w') \<Rightarrow> (v, w'))"

text \<open>
  \<^verbatim>\<open>await self.tools[tool_name](**arguments)\<close> for a registered name: the argument value
  must be a mapping, and its keys must fit the tool's parameters.
\<close>

definition call_tool :: "'w env \<Rightarrow> string \<Rightarrow> json \<Rightarrow> 'w \<Rightarrow> (exc + json) \<times> 'w" where
  "call_tool env name arguments w =
     (case arguments of
        JObj kvs \<Rightarrow>
          if name = ''get_map'' then
            (case bind_kwargs [''key''] [] kvs of
               Inl e \<Rightarrow> (Inl e, w)
             | Inr u \<Rightarrow> (get_map (kwarg kvs ''key''), w))
          else if name = ''apply_patch'' then
            (case bind_kwargs [''repo'', ''patch''] [] kvs of
               Inl e \<Rightarrow> (Inl e, w)
             | Inr u \<Rightarrow> (Inr (apply_patch (kwarg kvs ''repo'') (kwarg kvs ''patch'')), w))
          else if name = ''search_logs'' then
            (case bind_kwargs [''pattern''] [''log_path''] kvs of
               Inl e \<Rightarrow> (Inl e, w)
             | Inr u \<Rightarrow> (Inr (search_logs env (kwarg kvs ''pattern'') (kwarg kvs ''log_path'')), w))
          else if name = ''run_tests'' then
            (case bind_kwargs [''project_path''] [''test_pattern''] kvs of
               Inl e \<Rightarrow> (Inl e, w)
             | Inr u \<Rightarrow> (Inr (run_tests (kwarg kvs ''project_path'') (kwarg kvs ''test_pattern'')), w))
          else
            (case bind_kwargs [''operation'', ''path''] [''content''] kvs of
               Inl e \<Rightarrow> (Inl e, w)
             | Inr u \<Rightarrow>
                 (case file_operations env (kwarg kvs ''operation'') (kwarg kvs ''path'')
                         (kwarg kvs ''content'') w of
                    (v, w') \<Rightarrow> (Inr v, w')))
      | _ \<Rightarrow> (Inl TypeError, w))"

text \<open>
  Constructing a \<^verbatim>\<open>ToolResponse\<close>: pydantic checks the declared field types, and
  \<^verbatim>\<open>tool_call_id: str\<close> rejects anything that is not a string.
\<close>

definition ToolResponse_init :: "json \<Rightarrow> json \<Rightarrow> string option \<Rightarrow> exc + ToolResponse" where
  "ToolResponse_init cid res err =
     (case cid of
        JStr s \<Rightarrow> Inr \<lparr>tool_call_id = s, result = res, error = err\<rparr>
      | _ \<Rightarrow> Inl ValidationError)"

text \<open>The name the registry's dict holds for a value, if any (\<^verbatim>\<open>tool_name in self.tools\<close>).\<close>

definition registered :: "json \<Rightarrow> string option" where
  "registered tool_name =
     (case tool_name of
        JStr n \<Rightarrow> if n \<in> set tool_names then Some n else None
      | _ \<Rightarrow> None)"

text \<open>The \<^verbatim>\<open>try\<close> block of \<^verbatim>\<open>execute_tool\<close>.\<close>

definition execute_tool_try :: "'w env \<Rightarrow> json \<Rightarrow> json \<Rightarrow> json \<Rightarrow> 'w \<Rightarrow> (exc + ToolResponse) \<times> 'w" where
  "execute_tool_try env tool_name cid arguments w =
     (if \<not> py_hashable tool_name then (Inl TypeError, w)
      else case registered tool_name of
             None \<Rightarrow>
               (ToolResponse_init cid JNull (Some (''Unknown tool: '' @ str_json env tool_name)), w)
           | Some n \<Rightarrow>
               (case call_tool env n arguments w of
                  (Inl e, w') \<Rightarrow> (Inl e, w')
                | (Inr r, w') \<Rightarrow> (ToolResponse_init cid r None, w')))"

text \<open>
  \<^verbatim>\<open>execute_tool\<close>: the handler builds a \<^verbatim>\<open>ToolResponse\<close> from \<^verbatim>\<open>str(e)\<close>; an exception raised
  by that construction leaves the method.
\<close>

definition execute_tool :: "'w env \<Rightarrow> json \<Rightarrow> json \<Rightarrow> json \<Rightarrow> 'w \<Rightarrow> (exc + ToolResponse) \<times> 'w" where
  "execute_tool env tool_name cid arguments w =
     (case execute_tool_try env tool_name cid arguments w of
        (Inl e, w') \<Rightarrow> (ToolResponse_init cid JNull (Some (str_exc env e)), w')
      | (Inr r, w') \<Rightarrow> (Inr r, w'))"

section \<open>The agent (langgraph_agent.py)\<close>

record AgentState =
  messages :: "message list"
  tool_calls :: json
  current_step :: string
  max_iterations :: int
  iteration_count :: int

text \<open>
  A fault that leaves a node carries the exception and the message list as the node left
  it: the nodes append to the list object that \<^verbatim>\<open>process_request\<close> built.
\<close>

type_synonym fault = "exc \<times> message list"

subsection \<open>analyze\<close>

text \<open>\<^verbatim>\<open>messages[-1]["content"] if messages else ""\<close>\<close>

definition analyzed_text :: "message list \<Rightarrow> exc + json" where
  "analyzed_text msgs =
     (if msgs \<noteq> [] then (case py_last msgs of Inl e \<Rightarrow> Inl e | Inr m \<Rightarrow> Inr (content m))
      else Inr (JStr []))"

definition analyze_input :: "AgentState \<Rightarrow> exc + AgentState" where
  "analyze_input state =
     (case analyzed_text (messages state) of
        Inl e \<Rightarrow> Inl e
      | Inr last_message \<Rightarrow> Inr (state\<lparr>current_step := ''analyzed'', iteration_count := 0\<rparr>))"

subsection \<open>retrieve\<close>

text \<open>\<^verbatim>\<open>[r["text"] for r in results]\<close>\<close>

fun texts_of :: "json list \<Rightarrow> exc + json list" where
  "texts_of [] = Inr []"
| "texts_of (r # rs) =
     (case py_getitem r ''text'' of
        Inl e \<Rightarrow> Inl e
      | Inr t \<Rightarrow> (case texts_of rs of Inl e \<Rightarrow> Inl e | Inr ts \<Rightarrow> Inr (t # ts)))"

text \<open>\<^verbatim>\<open>sep.join(xs)\<close> raises \<^verbatim>\<open>TypeError\<close> on an element that is not a string.\<close>

fun str_join :: "string \<Rightarrow> json list \<Rightarrow> exc + string" where
  "str_join sep [] = Inr []"
| "str_join sep [JStr s] = Inr s"
| "str_join sep (JStr s # x # xs) =
     (case str_join sep (x # xs) of Inl e \<Rightarrow> Inl e | Inr r \<Rightarrow> Inr (s @ sep @ r))"
| "str_join sep (v # xs) = Inl TypeError"

text \<open>
  The \<^verbatim>\<open>try\<close> block of \<^verbatim>\<open>_retrieve_context\<close>, entered with a non-empty list: the search for
  the content of the last message, with \<^verbatim>\<open>limit=3\<close>, and the rewrite of that message.
\<close>

definition retrieve_context_try ::
  "'w env \<Rightarrow> message list \<Rightarrow> json \<Rightarrow> 'w \<Rightarrow> (exc + message list) \<times> 'w" where
  "retrieve_context_try env msgs last_message w =
     (case vector_store_search env last_message 3 w of
        (Inl e, w1) \<Rightarrow> (Inl e, w1)
      | (Inr results, w1) \<Rightarrow>
          if results \<noteq> [] then
            (case texts_of results of
               Inl e \<Rightarrow> (Inl e, w1)
             | Inr ts \<Rightarrow>
                 (case str_join ''\<newline>'' ts of
                    Inl e \<Rightarrow> (Inl e, w1)
                  | Inr context \<Rightarrow>
                      (Inr (msgs[length msgs - 1 := (last msgs)
                              \<lparr>content := JStr (''Context: '' @ context @ ''\<newline>\<newline>Query: ''
                                                @ str_json env last_message)\<rparr>]), w1)))
          else (Inr msgs, w1))"

definition retrieve_context :: "'w env \<Rightarrow> AgentState \<Rightarrow> 'w \<Rightarrow> (exc + AgentState) \<times> 'w" where
  "retrieve_context env state w =
     (if messages state \<noteq> [] then
        (case py_last (messages state) of
           Inl e \<Rightarrow> (Inl e, w)
         | Inr m \<Rightarrow>
             (case retrieve_context_try env (messages state) (content m) w of
                (Inl e, w1) \<Rightarrow> (Inr (state\<lparr>current_step := ''context_retrieved''\<rparr>), w1)
              | (Inr msgs, w1) \<Rightarrow>
                  (Inr (state\<lparr>messages := msgs, current_step := ''context_retrieved''\<rparr>), w1)))
      else (Inr (state\<lparr>current_step := ''context_retrieved''\<rparr>), w))"

subsection \<open>generate_response\<close>

text \<open>\<^verbatim>\<open>response["choices"][0]["message"]\<close>\<close>

definition extract_message :: "json \<Rightarrow> exc + json" where
  "extract_message response =
     (case py_getitem response ''choices'' of
        Inl e \<Rightarrow> Inl e
      | Inr choices \<Rightarrow>
          (case py_getitem0 choices of
             Inl e \<Rightarrow> Inl e
           | Inr choice \<Rightarrow> py_getitem choice ''message''))"

definition ai_message_of :: "json \<Rightarrow> exc + message" where
  "ai_message_of msg =
     (case py_get msg ''content'' (JStr []) of
        Inl e \<Rightarrow> Inl e
      | Inr c \<Rightarrow>
          (case py_get msg ''tool_calls'' (JArr []) of
             Inl e \<Rightarrow> Inl e
           | Inr tcs \<Rightarrow>
               Inr \<lparr>role = ''assistant'', content = c,
                    m_tool_calls = Some tcs, m_tool_call_id = None\<rparr>))"

text \<open>\<^verbatim>\<open>if message.get("tool_calls"): state["tool_calls"] = message["tool_calls"]\<close>\<close>

definition store_tool_calls :: "json \<Rightarrow> AgentState \<Rightarrow> exc + AgentState" where
  "store_tool_calls msg state =
     (case py_get msg ''tool_calls'' JNull of
        Inl e \<Rightarrow> Inl e
      | Inr t \<Rightarrow>
          if py_truthy t then
            (case py_getitem msg ''tool_calls'' of
               Inl e \<Rightarrow> Inl e
             | Inr v \<Rightarrow> Inr (state\<lparr>tool_calls := v\<rparr>))
          else Inr state)"

text \<open>The \<^verbatim>\<open>except\<close> branch of \<^verbatim>\<open>_generate_response\<close>, run on the state as the \<^verbatim>\<open>try\<close> left it.\<close>

definition generation_error :: "'w env \<Rightarrow> AgentState \<Rightarrow> exc \<Rightarrow> AgentState" where
  "generation_error env state e =
     state\<lparr>messages := messages state @
              [\<lparr>role = ''assistant'',
                content = JStr (''Error generating response: '' @ str_exc env e),
                m_tool_calls = None, m_tool_call_id = None\<rparr>],
           current_step := ''error''\<rparr>"

text \<open>
  \<^verbatim>\<open>_generate_response\<close>. The call of \<^verbatim>\<open>get_tool_schemas\<close> before the \<^verbatim>\<open>try\<close> returns a constant
  and cannot fail, and the \<^verbatim>\<open>tools=\<close> argument of the completion call is commented out in
  the source: the completion is asked with the messages alone. The message is appended
  before the tool calls are stored, so the handler would see the appended message.
\<close>

definition generate_response :: "'w env \<Rightarrow> AgentState \<Rightarrow> 'w \<Rightarrow> AgentState \<times> 'w" where
  "generate_response env state w =
     (case chat_completion env (messages state) w of
        (Inl e, w1) \<Rightarrow> (generation_error env state e, w1)
      | (Inr response, w1) \<Rightarrow>
          (case extract_message response of
             Inl e \<Rightarrow> (generation_error env state e, w1)
           | Inr msg \<Rightarrow>
               (case ai_message_of msg of
                  Inl e \<Rightarrow> (generation_error env state e, w1)
                | Inr ai_message \<Rightarrow>
                    (case store_tool_calls msg
                            (state\<lparr>messages := messages state @ [ai_message]\<rparr>) of
                       Inl e \<Rightarrow>
                         (generation_error env
                            (state\<lparr>messages := messages state @ [ai_message]\<rparr>) e, w1)
                     | Inr state2 \<Rightarrow> (state2\<lparr>current_step := ''response_generated''\<rparr>, w1)))))"

subsection \<open>The decision after generation\<close>

definition should_use_tools :: "AgentState \<Rightarrow> string" where
  "should_use_tools state =
     (if py_truthy (tool_calls state) \<and> iteration_count state < max_iterations state
      then ''tools'' else ''finalize'')"

subsection \<open>execute_tools\<close>

text \<open>\<^verbatim>\<open>json.loads(x)\<close> takes a string.\<close>

definition py_json_loads :: "'w env \<Rightarrow> json \<Rightarrow> exc + json" where
  "py_json_loads env v = (case v of JStr s \<Rightarrow> json_loads env s | _ \<Rightarrow> Inl TypeError)"

text \<open>The three reads at the head of the loop body, in the order the source makes them.\<close>

definition tool_call_parts :: "'w env \<Rightarrow> json \<Rightarrow> exc + (json \<times> json \<times> json)" where
  "tool_call_parts env tool_call =
     (case py_getitem tool_call ''function'' of
        Inl e \<Rightarrow> Inl e
      | Inr f \<Rightarrow>
          (case py_getitem f ''name'' of
             Inl e \<Rightarrow> Inl e
           | Inr tool_name \<Rightarrow>
               (case py_getitem f ''arguments'' of
                  Inl e \<Rightarrow> Inl e
                | Inr a \<Rightarrow>
                    (case py_json_loads env a of
                       Inl e \<Rightarrow> Inl e
                     | Inr arguments \<Rightarrow>
                         (case py_getitem tool_call ''id'' of
                            Inl e \<Rightarrow> Inl e
                          | Inr cid \<Rightarrow> Inr (tool_name, arguments, cid))))))"

text \<open>\<^verbatim>\<open>json.dumps(result.result) if result.result else result.error\<close>\<close>

definition tool_message_content :: "'w env \<Rightarrow> ToolResponse \<Rightarrow> json" where
  "tool_message_content env res =
     (if py_truthy (result res) then JStr (json_dumps env (result res))
      else (case error res of None \<Rightarrow> JNull | Some t \<Rightarrow> JStr t))"

text \<open>The \<^verbatim>\<open>try\<close> block of the loop body: the message to append, or the exception.\<close>

definition dispatch_tool_call :: "'w env \<Rightarrow> json \<Rightarrow> 'w \<Rightarrow> (exc + message) \<times> 'w" where
  "dispatch_tool_call env tool_call w =
     (case tool_call_parts env tool_call of
        Inl e \<Rightarrow> (Inl e, w)
      | Inr (tool_name, arguments, cid) \<Rightarrow>
          (case execute_tool env tool_name cid arguments w of
             (Inl e, w1) \<Rightarrow> (Inl e, w1)
           | (Inr res, w1) \<Rightarrow>
               (Inr \<lparr>role = ''tool'', content = tool_message_content env res,
                     m_tool_calls = None, m_tool_call_id = Some cid\<rparr>, w1)))"

text \<open>
  The loop body with its handler; \<^verbatim>\<open>tool_call.get("id", "unknown")\<close> in the handler raises
  on a tool call that is not a dict, and that exception leaves the node.
\<close>

definition run_tool_call :: "'w env \<Rightarrow> json \<Rightarrow> 'w \<Rightarrow> (exc + message) \<times> 'w" where
  "run_tool_call env tool_call w =
     (case dispatch_tool_call env tool_call w of
        (Inr m, w1) \<Rightarrow> (Inr m, w1)
      | (Inl e, w1) \<Rightarrow>
          (case py_get tool_call ''id'' (JStr ''unknown'') of
             Inl e' \<Rightarrow> (Inl e', w1)
           | Inr cid \<Rightarrow>
               (Inr \<lparr>role = ''tool'',
                     content = JStr (''Tool execution error: '' @ str_exc env e),
                     m_tool_calls = None, m_tool_call_id = Some cid\<rparr>, w1)))"

text \<open>\<^verbatim>\<open>for tool_call in tool_calls\<close>, appending to \<open>msgs\<close>.\<close>

fun tool_loop :: "'w env \<Rightarrow> json list \<Rightarrow> message list \<Rightarrow> 'w \<Rightarrow> (exc option \<times> message list) \<times> 'w" where
  "tool_loop env [] msgs w = ((None, msgs), w)"
| "tool_loop env (tc # rest) msgs w =
     (case run_tool_call env tc w of
        (Inl e, w1) \<Rightarrow> ((Some e, msgs), w1)
      | (Inr m, w1) \<Rightarrow> tool_loop env rest (msgs @ [m]) w1)"

definition execute_tools :: "'w env \<Rightarrow> AgentState \<Rightarrow> 'w \<Rightarrow> (fault + AgentState) \<times> 'w" where
  "execute_tools env state w =
     (case py_iter (tool_calls state) of
        Inl e \<Rightarrow> (Inl (e, messages state), w)
      | Inr tcs \<Rightarrow>
          (case tool_loop env tcs (messages state) w of
             ((Some e, msgs), w1) \<Rightarrow> (Inl (e, msgs), w1)
           | ((None, msgs), w1) \<Rightarrow>
               (Inr (state\<lparr>messages := msgs, tool_calls := JArr [],
                           iteration_count := iteration_count state + 1,
                           current_step := ''tools_executed''\<rparr>), w1)))"

subsection \<open>finalize\<close>

definition finalize_response :: "AgentState \<Rightarrow> AgentState" where
  "finalize_response state = state\<lparr>current_step := ''completed''\<rparr>"

subsection \<open>The graph\<close>

text \<open>
  \<^verbatim>\<open>_build_graph\<close>: the entry point is \<^verbatim>\<open>analyze\<close>; \<^verbatim>\<open>analyze\<close> leads to \<^verbatim>\<open>retrieve\<close>, \<^verbatim>\<open>retrieve\<close>
  to \<^verbatim>\<open>generate_response\<close>; after \<^verbatim>\<open>generate_response\<close> the answer of \<^verbatim>\<open>_should_use_tools\<close>
  selects \<^verbatim>\<open>execute_tools\<close> or \<^verbatim>\<open>finalize\<close>; \<^verbatim>\<open>execute_tools\<close> leads back to
  \<^verbatim>\<open>generate_response\<close> and \<^verbatim>\<open>finalize\<close> to the end.
\<close>

datatype node =
  N_analyze | N_retrieve | N_generate_response | N_execute_tools | N_finalize | N_END

text \<open>
  The measure that shows a run ends: the budget \<open>max_iterations - iteration_count\<close>
  shrinks with every tool cycle, and between two cycles the graph only moves forward.
\<close>

definition node_measure :: "node \<Rightarrow> AgentState \<Rightarrow> nat" where
  "node_measure n state =
     (case n of
        N_END \<Rightarrow> 0
      | N_finalize \<Rightarrow> 1
      | N_generate_response \<Rightarrow> 2 + 2 * nat (max_iterations state - iteration_count state)
      | N_execute_tools \<Rightarrow> 3 + 2 * nat (max_iterations state - iteration_count state - 1)
      | N_retrieve \<Rightarrow> 3 + 2 * nat (max_iterations state - iteration_count state)
      | N_analyze \<Rightarrow> 4 + 2 * nat (max_iterations state))"

text \<open>
  Running the compiled graph from a node. Besides the final state (or the fault that left
  a node) and the outside world, the run reports the nodes it executed, in order; this
  list is what the statements about tool cycles count. The library's own recursion limit
  on the number of steps is not part of the repository and is not modelled.
\<close>

definition visit :: "node \<Rightarrow> 'r \<times> 'w \<times> node list \<Rightarrow> 'r \<times> 'w \<times> node list" where
  "visit n out = (case out of (r, w, tr) \<Rightarrow> (r, w, n # tr))"

function ainvoke ::
  "'w env \<Rightarrow> node \<Rightarrow> AgentState \<Rightarrow> 'w \<Rightarrow> (fault + AgentState) \<times> 'w \<times> node list" where
  "ainvoke env N_analyze state w =
     (case analyze_input state of
        Inl e \<Rightarrow> (Inl (e, messages state), w, [N_analyze])
      | Inr state1 \<Rightarrow> visit N_analyze (ainvoke env N_retrieve state1 w))"
| "ainvoke env N_retrieve state w =
     (case retrieve_context env state w of
        (Inl e, w1) \<Rightarrow> (Inl (e, messages state), w1, [N_retrieve])
      | (Inr state1, w1) \<Rightarrow> visit N_retrieve (ainvoke env N_generate_response state1 w1))"
| "ainvoke env N_generate_response state w =
     (case generate_response env state w of
        (state1, w1) \<Rightarrow>
          visit N_generate_response
            (if should_use_tools state1 = ''tools'' then ainvoke env N_execute_tools state1 w1
             else ainvoke env N_finalize state1 w1))"
| "ainvoke env N_execute_tools state w =
     (case execute_tools env state w of
        (Inl f, w1) \<Rightarrow> (Inl f, w1, [N_execute_tools])
      | (Inr state1, w1) \<Rightarrow> visit N_execute_tools (ainvoke env N_generate_response state1 w1))"
| "ainvoke env N_finalize state w =
     visit N_finalize (ainvoke env N_END (finalize_response state) w)"
| "ainvoke env N_END state w = (Inr state, w, [])"
  by pat_completeness auto

termination
proof (relation "measure (\<lambda>(env, n, state, w). node_measure n state)", goal_cases)
  case 1
  show ?case by simp
next
  case (2 env state w state1)
  then have "iteration_count state1 = 0 \<and> max_iterations state1 = max_iterations state"
    by (auto simp: analyze_input_def split: sum.splits)
  then show ?case by (simp add: node_measure_def)
next
  case (3 env state w x w1 state1)
  then have "retrieve_context env state w = (Inr state1, w1)" by simp
  then have "iteration_count state1 = iteration_count state
             \<and> max_iterations state1 = max_iterations state"
    by (auto simp: retrieve_context_def split: sum.splits if_splits prod.splits)
  then show ?case by (simp add: node_measure_def)
next
  case (4 env state w state1 w1)
  then have eq: "generate_response env state w = (state1, w1)" by simp
  then have "iteration_count state1 = iteration_count state
             \<and> max_iterations state1 = max_iterations state"
    by (auto simp: generate_response_def generation_error_def store_tool_calls_def
             split: sum.splits prod.splits if_splits)
  with 4 eq show ?case
    by (simp add: node_measure_def should_use_tools_def split: if_splits)
next
  case (5 env state w state1 w1)
  then have eq: "generate_response env state w = (state1, w1)" by simp
  then have "iteration_count state1 = iteration_count state
             \<and> max_iterations state1 = max_iterations state"
    by (auto simp: generate_response_def generation_error_def store_tool_calls_def
             split: sum.splits prod.splits if_splits)
  with eq show ?case by (simp add: node_measure_def)
next
  case (6 env state w x w1 state1)
  then have "execute_tools env state w = (Inr state1, w1)" by simp
  then have "iteration_count state1 = iteration_count state + 1
             \<and> max_iterations state1 = max_iterations state"
    by (auto simp: execute_tools_def split: sum.splits prod.splits option.splits)
  then show ?case by (simp add: node_measure_def)
next
  case (7 env state w)
  show ?case by (simp add: node_measure_def)
qed

subsection \<open>process_request\<close>

text \<open>The dict \<^verbatim>\<open>process_request\<close> returns; \<open>r_tool_calls\<close> is \<open>None\<close> where the key is absent.\<close>

record Response =
  response :: json
  r_tool_calls :: "json option"
  r_messages :: "message list"
  status :: string

definition message_dicts :: "ChatMessage list \<Rightarrow> message list" where
  "message_dicts msgs =
     map (\<lambda>msg. \<lparr>role = cm_role msg, content = JStr (cm_content msg),
                  m_tool_calls = None, m_tool_call_id = None\<rparr>) msgs"

definition initial_state :: "ChatMessage list \<Rightarrow> int \<Rightarrow> AgentState" where
  "initial_state msgs max_it =
     \<lparr>messages = message_dicts msgs, tool_calls = JArr [], current_step = ''start'',
      max_iterations = max_it, iteration_count = 0\<rparr>"

text \<open>What \<^verbatim>\<open>process_request\<close> makes of the outcome of the graph.\<close>

definition build_response :: "'w env \<Rightarrow> fault + AgentState \<Rightarrow> Response" where
  "build_response env out =
     (case out of
        Inr final_state \<Rightarrow>
          (let final_messages = messages final_state;
               ai_messages = filter (\<lambda>msg. role msg = ''assistant'') final_messages
           in if ai_messages \<noteq> [] then
                \<lparr>response = content (last ai_messages),
                 r_tool_calls =
                   Some (case m_tool_calls (last ai_messages) of None \<Rightarrow> JArr [] | Some t \<Rightarrow> t),
                 r_messages = final_messages,
                 status = ''success''\<rparr>
              else
                \<lparr>response = JStr ''No response generated'',
                 r_tool_calls = None,
                 r_messages = final_messages,
                 status = ''error''\<rparr>)
      | Inl (e, msgs) \<Rightarrow>
          \<lparr>response = JStr (''Agent processing failed: '' @ str_exc env e),
           r_tool_calls = None,
           r_messages = msgs,
           status = ''error''\<rparr>)"

definition process_request :: "'w env \<Rightarrow> ChatMessage list \<Rightarrow> int \<Rightarrow> 'w \<Rightarrow> Response \<times> 'w" where
  "process_request env msgs max_it w =
     (case ainvoke env N_analyze (initial_state msgs max_it) w of
        (out, w', tr) \<Rightarrow> (build_response env out, w'))"

section \<open>Vocabulary of the statements\<close>

text \<open>
  The number of tool cycles a run started at a node can still perform, read off the state
  at that node.
\<close>

definition cycle_bound :: "node \<Rightarrow> AgentState \<Rightarrow> nat" where
  "cycle_bound n st =
     (case n of
        N_analyze \<Rightarrow> nat (max_iterations st)
      | N_retrieve \<Rightarrow> nat (max_iterations st - iteration_count st)
      | N_generate_response \<Rightarrow> nat (max_iterations st - iteration_count st)
      | N_execute_tools \<Rightarrow> Suc (nat (max_iterations st - iteration_count st - 1))
      | N_finalize \<Rightarrow> 0
      | N_END \<Rightarrow> 0)"


text \<open>The passages of a retrieval, one per line, as the context block shows them.\<close>

fun lines_joined :: "string list \<Rightarrow> string" where
  "lines_joined [] = []"
| "lines_joined [s] = s"
| "lines_joined (s # t # ts) = s @ ''\<newline>'' @ lines_joined (t # ts)"

text \<open>
  The identifier a tool message carries for a tool call: the call's \<^verbatim>\<open>id\<close> entry, and the
  text \<^verbatim>\<open>unknown\<close> for a call without one (\<^verbatim>\<open>tool_call.get("id", "unknown")\<close>).
\<close>

definition call_id :: "json \<Rightarrow> json" where
  "call_id tool_call =
     (case tool_call of
        JObj kvs \<Rightarrow> (case map_of kvs ''id'' of None \<Rightarrow> JStr ''unknown'' | Some v \<Rightarrow> v)
      | _ \<Rightarrow> JStr ''unknown'')"

text \<open>A tool call as \<^verbatim>\<open>AgentState\<close> declares it: a dict.\<close>

fun is_object :: "json \<Rightarrow> bool" where
  "is_object (JObj kvs) = True"
| "is_object v = False"

text \<open>
  A message answers a tool call: a tool-role message with that call's identifier and a
  text as content.
\<close>

definition answers :: "json \<Rightarrow> message \<Rightarrow> bool" where
  "answers tool_call m =
     (role m = ''tool'' \<and> m_tool_call_id m = Some (call_id tool_call) \<and> m_tool_calls m = None
      \<and> (case content m of JStr t \<Rightarrow> True | _ \<Rightarrow> False))"

text \<open>
  The identifiers an assistant message emits. \<open>declared_ids\<close> are the \<^verbatim>\<open>id\<close> entries its tool
  calls really have; \<open>answered_ids\<close> puts \<^verbatim>\<open>unknown\<close> for a call that has none.
\<close>

definition ids_of :: "json \<Rightarrow> json list" where
  "ids_of v = (case v of JArr tcs \<Rightarrow> map call_id tcs | _ \<Rightarrow> [])"

definition answered_ids :: "message \<Rightarrow> json list" where
  "answered_ids m = (case m_tool_calls m of Some v \<Rightarrow> ids_of v | None \<Rightarrow> [])"

definition declared_id :: "json \<Rightarrow> json list" where
  "declared_id tool_call =
     (case tool_call of
        JObj kvs \<Rightarrow> (case map_of kvs ''id'' of None \<Rightarrow> [] | Some v \<Rightarrow> [v])
      | _ \<Rightarrow> [])"

definition declared_ids :: "message \<Rightarrow> json list" where
  "declared_ids m =
     (case m_tool_calls m of Some (JArr tcs) \<Rightarrow> concat (map declared_id tcs) | _ \<Rightarrow> [])"

text \<open>
  Every tool-role message of a list carries an identifier emitted by the most recent
  assistant-role message before it; \<open>ids\<close> are the identifiers of the assistant message
  that precedes the list.
\<close>

fun tool_ids_follow :: "(message \<Rightarrow> json list) \<Rightarrow> json list \<Rightarrow> message list \<Rightarrow> bool" where
  "tool_ids_follow emitted ids [] = True"
| "tool_ids_follow emitted ids (m # ms) =
     (if role m = ''assistant'' then tool_ids_follow emitted (emitted m) ms
      else if role m = ''tool''
        then m_tool_call_id m \<in> set (map Some ids) \<and> tool_ids_follow emitted ids ms
      else tool_ids_follow emitted ids ms)"

text \<open>Every tool call of an assistant message has an \<^verbatim>\<open>id\<close> entry.\<close>

definition has_id :: "json \<Rightarrow> bool" where
  "has_id tool_call = (declared_id tool_call \<noteq> [])"

definition all_identified :: "message \<Rightarrow> bool" where
  "all_identified m =
     (case m_tool_calls m of Some (JArr tcs) \<Rightarrow> list_all has_id tcs | _ \<Rightarrow> True)"

section \<open>Scenarios\<close>

text \<open>
  Concrete collaborators for the scenarios of the specification. The world is \<open>unit\<close>:
  these collaborators keep no state. \<open>completion c tcs\<close> is a response body with one
  choice; \<open>demo_loads\<close> decodes the two argument texts the scenarios use.
\<close>

definition completion :: "json \<Rightarrow> json \<Rightarrow> json" where
  "completion c tcs =
     JObj [(''choices'', JArr [JObj [(''index'', JInt 0),
             (''message'', JObj [(''role'', JStr ''assistant''), (''content'', c),
                                 (''tool_calls'', tcs)])]])]"

definition get_map_call :: json where
  \<open>get_map_call =
     JObj [(''id'', JStr ''c1''), (''type'', JStr ''function''),
           (''function'', JObj [(''name'', JStr ''get_map''),
                                (''arguments'', JStr ''{"key": "engine_params"}'')])]\<close>

definition demo_loads :: "string \<Rightarrow> exc + json" where
  \<open>demo_loads s =
     (if s = ''{"key": "engine_params"}'' then Inr (JObj [(''key'', JStr ''engine_params'')])
      else if s = ''{}'' then Inr (JObj [])
      else Inl (Raised ''Expecting value''))\<close>

text \<open>Every collaborator is down, and the file system is empty and read-only.\<close>

definition offline_env :: "unit env" where
  "offline_env =
     \<lparr>vector_store_search = (\<lambda>q n w. (Inl (Raised ''Search failed: connection refused''), w)),
      chat_completion = (\<lambda>ms w. (Inl (Raised ''LLM request failed: connection refused''), w)),
      json_loads = demo_loads,
      json_dumps = (\<lambda>v. ''<json>''),
      exc_text = (\<lambda>e. ''<exception>''),
      py_repr = (\<lambda>v. ''<value>''),
      path_exists = (\<lambda>p w. (Inr False, w)),
      path_is_dir = (\<lambda>p w. (Inr False, w)),
      path_iterdir = (\<lambda>p w. (Inl (Raised ''not a directory''), w)),
      path_stat_size = (\<lambda>p w. (Inl (Raised ''no such file''), w)),
      path_unlink = (\<lambda>p w. (Inl (Raised ''no such file''), w)),
      open_read = (\<lambda>p w. (Inl (Raised ''no such file''), w)),
      open_write = (\<lambda>p c w. (Inl (Raised ''read-only file system''), w))\<rparr>"

text \<open>The model answers every request with the same tool call and empty content.\<close>

definition insistent_env :: "unit env" where
  "insistent_env =
     offline_env\<lparr>chat_completion :=
       (\<lambda>ms w. (Inr (completion (JStr []) (JArr [get_map_call])), w))\<rparr>"

definition hello :: "ChatMessage list" where
  "hello = [\<lparr>cm_role = ''user'', cm_content = ''Hello''\<rparr>]"

text \<open>The arguments of a \<^verbatim>\<open>file_operations\<close> call that writes a file.\<close>

definition write_arguments :: json where
  "write_arguments =
     JObj [(''operation'', JStr ''write''), (''path'', JStr ''/tmp/out.txt''),
           (''content'', JStr ''hi'')]"

text \<open>The vector store is down; the model answers \<open>Hi there\<close> and asks for no tool.\<close>

definition greeting_env :: "unit env" where
  "greeting_env =
     offline_env\<lparr>chat_completion := (\<lambda>ms w. (Inr (completion (JStr ''Hi there'') (JArr [])), w))\<rparr>"

text \<open>The vector store finds one passage for any query.\<close>

definition boost_passage :: json where
  "boost_passage =
     JObj [(''id'', JStr ''doc-1''), (''score'', JFloat (9 / 10)),
           (''text'', JStr ''Boost target is 1.2 bar''), (''metadata'', JObj [])]"

definition retrieval_env :: "unit env" where
  "retrieval_env = greeting_env\<lparr>vector_store_search := (\<lambda>q n w. (Inr [boost_passage], w))\<rparr>"

text \<open>A conversation whose last message is not the user's.\<close>

definition history :: "ChatMessage list" where
  "history =
     [\<lparr>cm_role = ''user'', cm_content = ''What is the boost target?''\<rparr>,
      \<lparr>cm_role = ''assistant'', cm_content = ''Let me check.''\<rparr>]"

text \<open>A tool call without \<^verbatim>\<open>function\<close>.\<close>

definition broken_call :: json where
  "broken_call = JObj [(''id'', JStr ''c0''), (''type'', JStr ''function'')]"

text \<open>
  A tool call without \<^verbatim>\<open>id\<close>, and a model that asks for one tool and answers once it sees
  the tool message.
\<close>

definition anonymous_call :: json where
  \<open>anonymous_call =
     JObj [(''type'', JStr ''function''),
           (''function'', JObj [(''name'', JStr ''get_map''),
                                (''arguments'', JStr ''{"key": "engine_params"}'')])]\<close>

definition tool_then_answer :: "json \<Rightarrow> message list \<Rightarrow> unit \<Rightarrow> (exc + json) \<times> unit" where
  "tool_then_answer tool_call ms w =
     (if ms \<noteq> [] \<and> role (last ms) = ''tool''
      then (Inr (completion (JStr ''The engine runs at 2500 rpm.'') (JArr [])), w)
      else (Inr (completion JNull (JArr [tool_call])), w))"

definition round_trip_env :: "unit env" where
  "round_trip_env = offline_env\<lparr>chat_completion := tool_then_answer get_map_call\<rparr>"

definition anonymous_env :: "unit env" where
  "anonymous_env = offline_env\<lparr>chat_completion := tool_then_answer anonymous_call\<rparr>"

text \<open>
  Collaborators that leave a trace. The world is the list of the files written so far, in
  order; \<open>demo_dumps\<close> shows the keys of the object it serialises. \<open>write_call\<close> asks
  \<^verbatim>\<open>file_operations\<close> to write a file.
\<close>

definition demo_dumps :: "json \<Rightarrow> string" where
  "demo_dumps v =
     (case v of
        JObj kvs \<Rightarrow> ''{'' @ concat (map (\<lambda>kv. fst kv @ '';'') kvs) @ ''}''
      | _ \<Rightarrow> ''?'')"

definition write_call :: json where
  \<open>write_call =
     JObj [(''id'', JStr ''c2''), (''type'', JStr ''function''),
           (''function'', JObj [(''name'', JStr ''file_operations''),
                                (''arguments'', JStr ''{"operation": "write", "path": "/tmp/out.txt", "content": "hi"}'')])]\<close>

definition recording_loads :: "string \<Rightarrow> exc + json" where
  \<open>recording_loads s =
     (if s = ''{"operation": "write", "path": "/tmp/out.txt", "content": "hi"}''
      then Inr write_arguments else demo_loads s)\<close>

definition recording_env :: "string list env" where
  "recording_env =
     \<lparr>vector_store_search = (\<lambda>q n w. (Inl (Raised ''Search failed: connection refused''), w)),
      chat_completion = (\<lambda>ms w. (Inl (Raised ''LLM request failed: connection refused''), w)),
      json_loads = recording_loads,
      json_dumps = demo_dumps,
      exc_text = (\<lambda>e. ''<exception>''),
      py_repr = (\<lambda>v. ''<value>''),
      path_exists = (\<lambda>p w. (Inr (p \<in> set w), w)),
      path_is_dir = (\<lambda>p w. (Inr False, w)),
      path_iterdir = (\<lambda>p w. (Inl (Raised ''not a directory''), w)),
      path_stat_size = (\<lambda>p w. (Inl (Raised ''no such file''), w)),
      path_unlink = (\<lambda>p w. (Inr (), removeAll p w)),
      open_read = (\<lambda>p w. (Inl (Raised ''no such file''), w)),
      open_write = (\<lambda>p c w. (Inr (), w @ [p]))\<rparr>"

text \<open>A batch of three pending calls: one that cannot be read, a write, a lookup.\<close>

definition batch_state :: AgentState where
  "batch_state =
     \<lparr>messages = [], tool_calls = JArr [broken_call, write_call, get_map_call],
      current_step = ''response_generated'', max_iterations = 3, iteration_count = 0\<rparr>"

text \<open>
  A batch whose first entry is not a dict but a string, and a model that emits that batch.
\<close>

definition stray_state :: AgentState where
  "stray_state =
     \<lparr>messages = [], tool_calls = JArr [JStr ''get_map'', write_call],
      current_step = ''response_generated'', max_iterations = 3, iteration_count = 0\<rparr>"



definition stray_env :: "string list env" where
  "stray_env =
     recording_env\<lparr>chat_completion :=
       (\<lambda>ms w. (Inr (completion JNull (JArr [JStr ''get_map'', write_call])), w))\<rparr>"

section \<open>Properties of the nodes\<close>

lemmas agent_defs =
  process_request_def initial_state_def message_dicts_def build_response_def visit_def
  analyze_input_def analyzed_text_def py_last_def retrieve_context_def retrieve_context_try_def
  generate_response_def generation_error_def extract_message_def ai_message_of_def
  store_tool_calls_def should_use_tools_def execute_tools_def run_tool_call_def
  dispatch_tool_call_def tool_call_parts_def py_json_loads_def tool_message_content_def
  finalize_response_def str_exc_def str_json_def

lemmas registry_defs =
  execute_tool_def execute_tool_try_def registered_def tool_names_def ToolResponse_init_def
  call_tool_def bind_kwargs_def kwarg_def get_map_def mock_data_def apply_patch_def
  search_logs_def run_tests_def file_operations_def file_operations_try_def

lemmas scenario_defs =
  offline_env_def insistent_env_def completion_def get_map_call_def demo_loads_def hello_def

lemmas recording_defs =
  recording_env_def recording_loads_def demo_dumps_def write_call_def write_arguments_def
  broken_call_def get_map_call_def demo_loads_def

declare ainvoke.simps [simp del]

lemma analyze_input_eq:
  "analyze_input st = Inr (st\<lparr>current_step := ''analyzed'', iteration_count := 0\<rparr>)"
  by (simp add: analyze_input_def analyzed_text_def py_last_def)

lemma retrieve_context_counts:
  "retrieve_context env st w = (Inr st', w') \<Longrightarrow>
     iteration_count st' = iteration_count st \<and> max_iterations st' = max_iterations st
     \<and> tool_calls st' = tool_calls st"
  by (auto simp: retrieve_context_def split: sum.splits if_splits prod.splits)

lemma generate_response_counts:
  "generate_response env st w = (st', w') \<Longrightarrow>
     iteration_count st' = iteration_count st \<and> max_iterations st' = max_iterations st"
  by (auto simp: generate_response_def generation_error_def store_tool_calls_def
           split: sum.splits prod.splits if_splits)

lemma execute_tools_counts:
  "execute_tools env st w = (Inr st', w') \<Longrightarrow>
     iteration_count st' = iteration_count st + 1 \<and> max_iterations st' = max_iterations st"
  by (auto simp: execute_tools_def split: sum.splits prod.splits option.splits)

lemma retrieve_context_returns:
  "\<exists>st1 w1. retrieve_context env st w = (Inr st1, w1)"
  by (auto simp: retrieve_context_def py_last_def split: prod.splits sum.splits)

lemma ainvoke_analyze:
  "ainvoke env N_analyze st w =
     visit N_analyze (ainvoke env N_retrieve (st\<lparr>current_step := ''analyzed'', iteration_count := 0\<rparr>) w)"
  by (simp add: ainvoke.simps analyze_input_eq)

lemma ainvoke_retrieve:
  "retrieve_context env st w = (Inr st1, w1) \<Longrightarrow>
     ainvoke env N_retrieve st w = visit N_retrieve (ainvoke env N_generate_response st1 w1)"
  by (simp add: ainvoke.simps)

lemma ainvoke_generate_tools:
  "generate_response env st w = (st1, w1) \<Longrightarrow> should_use_tools st1 = ''tools'' \<Longrightarrow>
     ainvoke env N_generate_response st w =
       visit N_generate_response (ainvoke env N_execute_tools st1 w1)"
  by (simp add: ainvoke.simps)

lemma ainvoke_generate_finalize:
  "generate_response env st w = (st1, w1) \<Longrightarrow> should_use_tools st1 \<noteq> ''tools'' \<Longrightarrow>
     ainvoke env N_generate_response st w =
       (Inr (finalize_response st1), w1, [N_generate_response, N_finalize])"
  by (simp add: ainvoke.simps visit_def)

lemma ainvoke_tools_fault:
  "execute_tools env st w = (Inl f, w1) \<Longrightarrow>
     ainvoke env N_execute_tools st w = (Inl f, w1, [N_execute_tools])"
  by (simp add: ainvoke.simps)

lemma ainvoke_tools:
  "execute_tools env st w = (Inr st1, w1) \<Longrightarrow>
     ainvoke env N_execute_tools st w =
       visit N_execute_tools (ainvoke env N_generate_response st1 w1)"
  by (simp add: ainvoke.simps)

lemma ainvoke_finalize:
  "ainvoke env N_finalize st w = (Inr (finalize_response st), w, [N_finalize])"
  by (simp add: ainvoke.simps visit_def)

lemma ainvoke_END: "ainvoke env N_END st w = (Inr st, w, [])"
  by (simp add: ainvoke.simps)

lemma ainvoke_induct' [case_names analyze retrieve generate_tools generate_finalize tools_fault tools finalize END]:
  assumes "\<And>env st w. P env N_retrieve (st\<lparr>current_step := ''analyzed'', iteration_count := 0\<rparr>) w
             \<Longrightarrow> P env N_analyze st w"
    and "\<And>env st w st1 w1. retrieve_context env st w = (Inr st1, w1)
             \<Longrightarrow> P env N_generate_response st1 w1 \<Longrightarrow> P env N_retrieve st w"
    and "\<And>env st w st1 w1. generate_response env st w = (st1, w1)
             \<Longrightarrow> should_use_tools st1 = ''tools''
             \<Longrightarrow> P env N_execute_tools st1 w1 \<Longrightarrow> P env N_generate_response st w"
    and "\<And>env st w st1 w1. generate_response env st w = (st1, w1)
             \<Longrightarrow> should_use_tools st1 \<noteq> ''tools''
             \<Longrightarrow> P env N_generate_response st w"
    and "\<And>env st w f w1. execute_tools env st w = (Inl f, w1) \<Longrightarrow> P env N_execute_tools st w"
    and "\<And>env st w st1 w1. execute_tools env st w = (Inr st1, w1)
             \<Longrightarrow> P env N_generate_response st1 w1 \<Longrightarrow> P env N_execute_tools st w"
    and "\<And>env st w. P env N_finalize st w"
    and "\<And>env st w. P env N_END st w"
  shows "P env n st w"
proof (induction env n st w rule: ainvoke.induct)
  case (1 env state w)
  show ?case using "1.IH"[OF analyze_input_eq] assms(1) by blast
next
  case (2 env state w)
  obtain st1 w1 where r: "retrieve_context env state w = (Inr st1, w1)"
    using retrieve_context_returns[of env state w] by auto
  show ?case using "2.IH"[OF r[symmetric] refl] assms(2)[OF r] by blast
next
  case (3 env state w)
  obtain st1 w1 where g: "generate_response env state w = (st1, w1)"
    by (cases "generate_response env state w") auto
  show ?case
  proof (cases "should_use_tools st1 = ''tools''")
    case True
    show ?thesis using "3.IH"(1)[OF g[symmetric] True] assms(3)[OF g True] by blast
  next
    case False
    show ?thesis using assms(4)[OF g False] by blast
  qed
next
  case (4 env state w)
  show ?case
  proof (cases "execute_tools env state w")
    case (Pair x w1)
    show ?thesis
    proof (cases x)
      case (Inl f)
      with Pair assms(5) show ?thesis by blast
    next
      case (Inr st1)
      with Pair have e: "execute_tools env state w = (Inr st1, w1)" by simp
      show ?thesis using "4.IH"[OF Pair[symmetric] Inr] assms(6)[OF e] by blast
    qed
  qed
next
  case (5 env state w)
  then show ?case using assms(7) by blast
next
  case (6 env state w)
  show ?case using assms(8) by blast
qed

lemma ainvoke_tool_cycles:
  "\<forall>out w' tr. ainvoke env n st w = (out, w', tr) \<longrightarrow>
     count_list tr N_execute_tools \<le> cycle_bound n st
     \<and> (\<forall>final. out = Inr final \<longrightarrow>
           iteration_count final =
             (if n = N_analyze then 0 else iteration_count st) + int (count_list tr N_execute_tools)
           \<and> max_iterations final = max_iterations st)"
proof (induction env n st w rule: ainvoke_induct')
  case (analyze env st w)
  then show ?case
    by (auto simp: ainvoke_analyze visit_def cycle_bound_def split: prod.splits)
next
  case (retrieve env st w st1 w1)
  then show ?case
    using retrieve_context_counts[of env st w st1 w1]
    by (auto simp: ainvoke_retrieve visit_def cycle_bound_def split: prod.splits)
next
  case (generate_tools env st w st1 w1)
  from generate_tools(2) have lt: "iteration_count st1 < max_iterations st1"
    by (simp add: should_use_tools_def split: if_splits)
  with generate_tools show ?case
    using generate_response_counts[of env st w st1 w1]
    by (auto simp: ainvoke_generate_tools visit_def cycle_bound_def split: prod.splits)
next
  case (generate_finalize env st w st1 w1)
  then show ?case
    using generate_response_counts[of env st w st1 w1]
    by (auto simp: ainvoke_generate_finalize cycle_bound_def finalize_response_def)
next
  case (tools_fault env st w f w1)
  then show ?case by (auto simp: ainvoke_tools_fault cycle_bound_def)
next
  case (tools env st w st1 w1)
  then show ?case
    using execute_tools_counts[of env st w st1 w1]
    by (auto simp: ainvoke_tools visit_def cycle_bound_def split: prod.splits)
next
  case (finalize env st w)
  then show ?case by (auto simp: ainvoke_finalize cycle_bound_def finalize_response_def)
next
  case (END env st w)
  then show ?case by (auto simp: ainvoke_END cycle_bound_def)
qed

text \<open>A fault leaves the graph only from the tool node, and only as one of two exceptions.\<close>

lemma run_tool_call_fault: "run_tool_call env tc w = (Inl e, w') \<Longrightarrow> e = AttributeError"
  by (cases tc) (auto simp: run_tool_call_def split: prod.splits sum.splits)

lemma tool_loop_fault: "tool_loop env tcs msgs w = ((Some e, msgs'), w') \<Longrightarrow> e = AttributeError"
  by (induction tcs arbitrary: msgs w)
     (auto split: prod.splits sum.splits dest: run_tool_call_fault)

lemma execute_tools_fault:
  "execute_tools env st w = (Inl (e, ms), w') \<Longrightarrow> e = TypeError \<or> e = AttributeError"
  by (cases "tool_calls st")
     (auto simp: execute_tools_def split: prod.splits sum.splits option.splits dest: tool_loop_fault)

lemma ainvoke_fault:
  "\<forall>e ms w' tr. ainvoke env n st w = (Inl (e, ms), w', tr) \<longrightarrow> e = TypeError \<or> e = AttributeError"
proof (induction env n st w rule: ainvoke_induct')
  case (analyze env st w)
  then show ?case by (auto simp: ainvoke_analyze visit_def split: prod.splits)
next
  case (retrieve env st w st1 w1)
  then show ?case by (auto simp: ainvoke_retrieve visit_def split: prod.splits)
next
  case (generate_tools env st w st1 w1)
  then show ?case by (auto simp: ainvoke_generate_tools visit_def split: prod.splits)
next
  case (generate_finalize env st w st1 w1)
  then show ?case by (auto simp: ainvoke_generate_finalize)
next
  case (tools_fault env st w f w1)
  then show ?case by (cases f) (auto simp: ainvoke_tools_fault dest: execute_tools_fault)
next
  case (tools env st w st1 w1)
  then show ?case by (auto simp: ainvoke_tools visit_def split: prod.splits)
next
  case (finalize env st w)
  then show ?case by (auto simp: ainvoke_finalize)
next
  case (END env st w)
  then show ?case by (simp add: ainvoke_END)
qed

lemma store_tool_calls_ok:
  "ai_message_of msg = Inr a \<Longrightarrow>
     store_tool_calls msg st =
       Inr (case m_tool_calls a of
              None \<Rightarrow> st
            | Some t \<Rightarrow> if py_truthy t then st\<lparr>tool_calls := t\<rparr> else st)"
  by (cases msg)
     (auto simp: ai_message_of_def store_tool_calls_def split: option.splits)

lemma ai_message_of_shape:
  "ai_message_of msg = Inr a \<Longrightarrow>
     role a = ''assistant'' \<and> m_tool_call_id a = None \<and> (\<exists>t. m_tool_calls a = Some t)"
  by (cases msg) (auto simp: ai_message_of_def)

lemma generate_response_cases:
  "generate_response env st w = (st1, w1) \<Longrightarrow>
     \<exists>a. role a = ''assistant'' \<and> messages st1 = messages st @ [a]
       \<and> ((m_tool_calls a = None \<and> tool_calls st1 = tool_calls st)
          \<or> (\<exists>t. m_tool_calls a = Some t
                 \<and> tool_calls st1 = (if py_truthy t then t else tool_calls st)))"
  by (auto simp: generate_response_def generation_error_def store_tool_calls_ok
           split: prod.splits sum.splits dest!: ai_message_of_shape)


text \<open>
  A failed completion call ends the turn at once: the error message is appended, nothing
  is retried, and the graph goes to \<^verbatim>\<open>finalize\<close>.
\<close>

lemma failed_generation_completes:
  "chat_completion env (messages st) w = (Inl e, w1) \<Longrightarrow> \<not> py_truthy (tool_calls st) \<Longrightarrow>
     ainvoke env N_generate_response st w =
       (Inr (st\<lparr>messages := messages st @
                  [\<lparr>role = ''assistant'',
                    content = JStr (''Error generating response: '' @ str_exc env e),
                    m_tool_calls = None, m_tool_call_id = None\<rparr>],
               current_step := ''completed''\<rparr>), w1, [N_generate_response, N_finalize])"
  by (simp add: ainvoke.simps generate_response_def generation_error_def should_use_tools_def
        finalize_response_def visit_def)

text \<open>The registry.\<close>

lemma get_map_truthy: "get_map key = Inr v \<Longrightarrow> py_truthy v"
  by (auto simp: get_map_def split: if_splits option.splits)

lemma file_operations_try_truthy:
  "file_operations_try env operation path text_arg w = (Inr v, w') \<Longrightarrow> py_truthy v"
  by (auto simp: file_operations_try_def split: json.splits if_splits prod.splits sum.splits)

lemma file_operations_truthy:
  "file_operations env operation path text_arg w = (v, w') \<Longrightarrow> py_truthy v"
  by (auto simp: file_operations_def split: prod.splits sum.splits
           dest: file_operations_try_truthy)

lemma call_tool_truthy: "call_tool env name arguments w = (Inr v, w') \<Longrightarrow> py_truthy v"
  by (auto simp: call_tool_def apply_patch_def search_logs_def run_tests_def
           split: json.splits if_splits sum.splits prod.splits
           dest: get_map_truthy file_operations_truthy)

lemma execute_tool_unknown:
  "name \<notin> set tool_names \<Longrightarrow>
     execute_tool env (JStr name) (JStr cid) arguments w =
       (Inr \<lparr>tool_call_id = cid, result = JNull, error = Some (''Unknown tool: '' @ name)\<rparr>, w)"
  by (simp add: execute_tool_def execute_tool_try_def registered_def ToolResponse_init_def
        str_json_def)

lemma execute_tool_known:
  "name \<in> set tool_names \<Longrightarrow>
     execute_tool env (JStr name) (JStr cid) arguments w =
       (case call_tool env name arguments w of
          (Inl e, w') \<Rightarrow>
            (Inr \<lparr>tool_call_id = cid, result = JNull, error = Some (str_exc env e)\<rparr>, w')
        | (Inr v, w') \<Rightarrow> (Inr \<lparr>tool_call_id = cid, result = v, error = None\<rparr>, w'))"
  by (simp add: execute_tool_def execute_tool_try_def registered_def ToolResponse_init_def
        split: prod.splits sum.splits)

lemma execute_tool_returns:
  "\<exists>r w'. execute_tool env tool_name (JStr cid) arguments w = (Inr r, w')"
  by (auto simp: execute_tool_def execute_tool_try_def ToolResponse_init_def
           split: prod.splits sum.splits option.splits)

text \<open>Retrieval and a plain answer.\<close>

lemma texts_of_strings:
  "list_all2 (\<lambda>r p. py_getitem r ''text'' = Inr (JStr p)) results passages \<Longrightarrow>
     texts_of results = Inr (map JStr passages)"
  by (induction results passages rule: list_all2_induct) auto

lemma str_join_strings: "str_join ''\<newline>'' (map JStr passages) = Inr (lines_joined passages)"
  by (induction passages rule: lines_joined.induct) auto

lemma retrieve_context_failure:
  "messages st \<noteq> [] \<Longrightarrow>
   retrieve_context_try env (messages st) (content (last (messages st))) w = (Inl e, w1) \<Longrightarrow>
     retrieve_context env st w = (Inr (st\<lparr>current_step := ''context_retrieved''\<rparr>), w1)"
  by (simp add: retrieve_context_def py_last_def)

lemma search_failure:
  "vector_store_search env q 3 w = (Inl e, w1) \<Longrightarrow>
     retrieve_context_try env msgs q w = (Inl e, w1)"
  by (simp add: retrieve_context_try_def)

lemma message_dicts_last:
  "msgs \<noteq> [] \<Longrightarrow> content (last (message_dicts msgs)) = JStr (cm_content (last msgs))"
  by (simp add: message_dicts_def last_map)

lemma plain_answer_completes:
  assumes "chat_completion env (messages st) w = (Inr resp, w1)"
    and "extract_message resp = Inr msg" and "ai_message_of msg = Inr a"
    and "m_tool_calls a = Some t" and "\<not> py_truthy t" and "\<not> py_truthy (tool_calls st)"
  shows "ainvoke env N_generate_response st w =
     (Inr (st\<lparr>messages := messages st @ [a], current_step := ''completed''\<rparr>), w1,
      [N_generate_response, N_finalize])"
proof -
  from assms have g: "generate_response env st w =
      (st\<lparr>messages := messages st @ [a], current_step := ''response_generated''\<rparr>, w1)"
    by (simp add: generate_response_def store_tool_calls_ok)
  from assms(6) have s: "should_use_tools
      (st\<lparr>messages := messages st @ [a], current_step := ''response_generated''\<rparr>) \<noteq> ''tools''"
    by (simp add: should_use_tools_def)
  from ainvoke_generate_finalize[OF g s] show ?thesis by (simp add: finalize_response_def)
qed

text \<open>The tool loop.\<close>

lemma execute_tool_dichotomy:
  "execute_tool env tool_name cid arguments w = (Inr r, w') \<Longrightarrow>
     (py_truthy (result r) \<and> error r = None) \<or> (result r = JNull \<and> (\<exists>t. error r = Some t))"
proof -
  assume ex: "execute_tool env tool_name cid arguments w = (Inr r, w')"
  show ?thesis
  proof (cases "execute_tool_try env tool_name cid arguments w")
    case (Pair x w1)
    show ?thesis
    proof (cases x)
      case (Inl e)
      with Pair ex show ?thesis
        by (auto simp: execute_tool_def ToolResponse_init_def split: json.splits)
    next
      case (Inr r1)
      with Pair ex have r: "r1 = r" by (simp add: execute_tool_def)
      from Pair Inr r show ?thesis
        by (auto simp: execute_tool_try_def ToolResponse_init_def
                 split: if_splits option.splits prod.splits sum.splits json.splits
                 dest: call_tool_truthy)
    qed
  qed
qed

lemma tool_message_content_eq:
  "execute_tool env tool_name cid arguments w = (Inr res, w') \<Longrightarrow>
     tool_message_content env res =
       (case error res of None \<Rightarrow> JStr (json_dumps env (result res)) | Some t \<Rightarrow> JStr t)"
  by (drule execute_tool_dichotomy) (auto simp: tool_message_content_def)

lemma tool_call_parts_id:
  "tool_call_parts env tc = Inr (tool_name, arguments, cid) \<Longrightarrow> call_id tc = cid \<and> is_object tc"
  by (cases tc) (auto simp: tool_call_parts_def call_id_def split: sum.splits option.splits)

lemma py_get_id:
  "py_get tc ''id'' (JStr ''unknown'') = Inr cid \<Longrightarrow> call_id tc = cid \<and> is_object tc"
  by (cases tc) (auto simp: call_id_def split: option.splits)

lemma run_tool_call_answers:
  "run_tool_call env tc w = (Inr m, w') \<Longrightarrow> answers tc m \<and> is_object tc"
proof -
  assume r: "run_tool_call env tc w = (Inr m, w')"
  show ?thesis
  proof (cases "dispatch_tool_call env tc w")
    case (Pair x w1)
    show ?thesis
    proof (cases x)
      case (Inl e)
      with Pair r show ?thesis
        by (auto simp: run_tool_call_def answers_def split: sum.splits dest: py_get_id)
    next
      case (Inr m1)
      with Pair r have m: "m1 = m" by (simp add: run_tool_call_def)
      from Pair Inr m show ?thesis
        by (auto simp: dispatch_tool_call_def answers_def tool_message_content_eq
                 split: sum.splits prod.splits option.splits dest: tool_call_parts_id)
    qed
  qed
qed

lemma run_tool_call_object:
  "is_object tc \<Longrightarrow> \<exists>m w'. run_tool_call env tc w = (Inr m, w')"
  by (cases tc) (auto simp: run_tool_call_def split: prod.splits sum.splits)

lemma tool_loop_answers:
  "tool_loop env tcs msgs w = ((None, msgs'), w') \<Longrightarrow>
     \<exists>ms. msgs' = msgs @ ms \<and> list_all2 answers tcs ms \<and> list_all is_object tcs"
proof (induction tcs arbitrary: msgs w)
  case Nil
  then show ?case by simp
next
  case (Cons tc tcs)
  from Cons.prems obtain m w1 where r: "run_tool_call env tc w = (Inr m, w1)"
    and l: "tool_loop env tcs (msgs @ [m]) w1 = ((None, msgs'), w')"
    by (auto split: prod.splits sum.splits)
  from Cons.IH[OF l] obtain ms where ms: "msgs' = (msgs @ [m]) @ ms" "list_all2 answers tcs ms"
    "list_all is_object tcs" by blast
  from run_tool_call_answers[OF r] ms show ?case
    by (intro exI[of _ "m # ms"]) simp
qed

lemma tool_loop_run:
  "tool_loop env tcs msgs w = ((None, msgs'), w') \<Longrightarrow>
     \<exists>ms ws. msgs' = msgs @ ms \<and> length ms = length tcs \<and> length ws = Suc (length tcs)
       \<and> ws ! 0 = w \<and> last ws = w'
       \<and> (\<forall>i<length tcs. run_tool_call env (tcs ! i) (ws ! i) = (Inr (ms ! i), ws ! Suc i))"
proof (induction tcs arbitrary: msgs w)
  case Nil
  then show ?case by (intro exI[of _ "[]"] exI[of _ "[w]"]) simp
next
  case (Cons tc tcs)
  from Cons.prems obtain m w1 where r: "run_tool_call env tc w = (Inr m, w1)"
    and l: "tool_loop env tcs (msgs @ [m]) w1 = ((None, msgs'), w')"
    by (auto split: prod.splits sum.splits)
  from Cons.IH[OF l] obtain ms ws where ih: "msgs' = (msgs @ [m]) @ ms" "length ms = length tcs"
    "length ws = Suc (length tcs)" "ws ! 0 = w1" "last ws = w'"
    "\<forall>i<length tcs. run_tool_call env (tcs ! i) (ws ! i) = (Inr (ms ! i), ws ! Suc i)"
    by blast
  have step: "\<forall>i<length (tc # tcs).
      run_tool_call env ((tc # tcs) ! i) ((w # ws) ! i) = (Inr ((m # ms) ! i), (w # ws) ! Suc i)"
  proof (intro allI impI)
    fix i assume "i < length (tc # tcs)"
    then show "run_tool_call env ((tc # tcs) ! i) ((w # ws) ! i) =
                 (Inr ((m # ms) ! i), (w # ws) ! Suc i)"
      using r ih(4,6) by (cases i) auto
  qed
  from ih(3) have "ws \<noteq> []" by auto
  with ih step show ?case
    by (intro exI[of _ "m # ms"] exI[of _ "w # ws"]) simp
qed

lemma tool_loop_objects:
  "list_all is_object tcs \<Longrightarrow> \<exists>msgs' w'. tool_loop env tcs msgs w = ((None, msgs'), w')"
proof (induction tcs arbitrary: msgs w)
  case Nil
  then show ?case by simp
next
  case (Cons tc tcs)
  then obtain m w1 where r: "run_tool_call env tc w = (Inr m, w1)"
    using run_tool_call_object[of tc env w] by auto
  from Cons.IH[of "msgs @ [m]" w1] Cons.prems r show ?case by auto
qed

lemma tool_loop_append:
  "tool_loop env (tcs1 @ tcs2) msgs w =
     (case tool_loop env tcs1 msgs w of
        ((None, msgs1), w1) \<Rightarrow> tool_loop env tcs2 msgs1 w1
      | ((Some e, msgs1), w1) \<Rightarrow> ((Some e, msgs1), w1))"
  by (induction tcs1 arbitrary: msgs w) (auto split: prod.splits sum.splits)

text \<open>Tool messages and the identifiers of the calls they answer.\<close>

lemma tool_messages_skipped:
  "list_all (\<lambda>m. role m = ''tool'' \<and> m_tool_call_id m \<in> set (map Some ids)) ms \<Longrightarrow>
     tool_ids_follow f ids (ms @ rest) = tool_ids_follow f ids rest"
  by (induction ms) auto

lemma answers_in_ids:
  "list_all2 answers tcs ms \<Longrightarrow>
     list_all (\<lambda>m. role m = ''tool'' \<and> m_tool_call_id m \<in> set (map Some (map call_id tcs))) ms"
  by (induction tcs ms rule: list_all2_induct) (auto simp: answers_def list_all_iff)

lemma py_iter_objects:
  "py_iter v = Inr tcs \<Longrightarrow> list_all is_object tcs \<Longrightarrow> map call_id tcs = ids_of v"
proof (cases v)
  case (JObj kvs)
  assume "py_iter v = Inr tcs" "list_all is_object tcs"
  with JObj have "kvs = []" by (cases kvs) auto
  with JObj \<open>py_iter v = Inr tcs\<close> show ?thesis by (auto simp: ids_of_def)
next
  case (JStr s)
  assume "py_iter v = Inr tcs" "list_all is_object tcs"
  with JStr have "s = []" by (cases s) auto
  with JStr \<open>py_iter v = Inr tcs\<close> show ?thesis by (auto simp: ids_of_def)
qed (auto simp: ids_of_def)

lemma execute_tools_answers:
  "execute_tools env st w = (Inr st1, w1) \<Longrightarrow>
     \<exists>ms. messages st1 = messages st @ ms \<and> tool_calls st1 = JArr []
       \<and> list_all (\<lambda>m. role m = ''tool''
                     \<and> m_tool_call_id m \<in> set (map Some (ids_of (tool_calls st)))) ms"
proof -
  assume e: "execute_tools env st w = (Inr st1, w1)"
  then obtain tcs msgs' where i: "py_iter (tool_calls st) = Inr tcs"
    and l: "tool_loop env tcs (messages st) w = ((None, msgs'), w1)"
    and s: "messages st1 = msgs'" "tool_calls st1 = JArr []"
    by (auto simp: execute_tools_def split: sum.splits prod.splits option.splits)
  from tool_loop_answers[OF l] obtain ms where ms: "msgs' = messages st @ ms"
    "list_all2 answers tcs ms" "list_all is_object tcs" by blast
  from answers_in_ids[OF ms(2)] py_iter_objects[OF i ms(3)] ms(1) s
  show ?thesis by auto
qed

lemma ainvoke_tool_ids:
  "\<forall>final w' tr. ainvoke env n st w = (Inr final, w', tr) \<longrightarrow>
     (n = N_generate_response \<longrightarrow> \<not> py_truthy (tool_calls st)) \<longrightarrow>
     n \<noteq> N_analyze \<longrightarrow> n \<noteq> N_retrieve \<longrightarrow>
     (\<exists>app. messages final = messages st @ app
        \<and> (if n = N_execute_tools
             then tool_ids_follow answered_ids (ids_of (tool_calls st)) app
           else if n = N_generate_response
             then (\<forall>ids. tool_ids_follow answered_ids ids app)
           else app = []))"
proof (induction env n st w rule: ainvoke_induct')
  case (analyze env st w)
  then show ?case by simp
next
  case (retrieve env st w st1 w1)
  then show ?case by simp
next
  case (generate_tools env st w st1 w1)
  show ?case
  proof (intro allI impI)
    fix final w' tr
    assume run: "ainvoke env N_generate_response st w = (Inr final, w', tr)"
      and pre: "N_generate_response = N_generate_response \<longrightarrow> \<not> py_truthy (tool_calls st)"
    from generate_tools(2) have tr: "py_truthy (tool_calls st1)"
      by (simp add: should_use_tools_def split: if_splits)
    from generate_response_cases[OF generate_tools(1)] pre tr
    obtain a t where a: "role a = ''assistant''" "messages st1 = messages st @ [a]"
      "m_tool_calls a = Some t" "tool_calls st1 = t"
      by (auto split: if_splits)
    from run obtain tr1 where r1: "ainvoke env N_execute_tools st1 w1 = (Inr final, w', tr1)"
      by (auto simp: ainvoke_generate_tools[OF generate_tools(1,2)] visit_def split: prod.splits)
    from generate_tools(3)[rule_format, OF r1]
    obtain app where app: "messages final = messages st1 @ app"
      "tool_ids_follow answered_ids (ids_of (tool_calls st1)) app" by auto
    from a app have "messages final = messages st @ (a # app)" by simp
    moreover from a app have "\<forall>ids. tool_ids_follow answered_ids ids (a # app)"
      by (simp add: answered_ids_def)
    ultimately show "\<exists>app. messages final = messages st @ app
        \<and> (if N_generate_response = N_execute_tools
             then tool_ids_follow answered_ids (ids_of (tool_calls st)) app
           else if N_generate_response = N_generate_response
             then (\<forall>ids. tool_ids_follow answered_ids ids app)
           else app = [])"
      by (intro exI[of _ "a # app"]) simp
  qed
next
  case (generate_finalize env st w st1 w1)
  from generate_response_cases[OF generate_finalize(1)]
  obtain a where a: "role a = ''assistant''" "messages st1 = messages st @ [a]" by auto
  then show ?case
    by (auto simp: ainvoke_generate_finalize[OF generate_finalize] finalize_response_def)
next
  case (tools_fault env st w f w1)
  then show ?case by (simp add: ainvoke_tools_fault)
next
  case (tools env st w st1 w1)
  show ?case
  proof (intro allI impI)
    fix final w' tr
    assume run: "ainvoke env N_execute_tools st w = (Inr final, w', tr)"
    from execute_tools_answers[OF tools(1)]
    obtain ms where ms: "messages st1 = messages st @ ms" "tool_calls st1 = JArr []"
      "list_all (\<lambda>m. role m = ''tool''
                     \<and> m_tool_call_id m \<in> set (map Some (ids_of (tool_calls st)))) ms"
      by blast
    from run obtain tr1 where r1: "ainvoke env N_generate_response st1 w1 = (Inr final, w', tr1)"
      by (auto simp: ainvoke_tools[OF tools(1)] visit_def split: prod.splits)
    from tools(2)[rule_format, OF r1] ms(2)
    obtain app where app: "messages final = messages st1 @ app"
      "\<forall>ids. tool_ids_follow answered_ids ids app" by auto
    from ms app have "messages final = messages st @ (ms @ app)" by simp
    moreover from app ms(3)
    have "tool_ids_follow answered_ids (ids_of (tool_calls st)) (ms @ app)"
      by (simp add: tool_messages_skipped)
    ultimately show "\<exists>app. messages final = messages st @ app
        \<and> (if N_execute_tools = N_execute_tools
             then tool_ids_follow answered_ids (ids_of (tool_calls st)) app
           else if N_execute_tools = N_generate_response
             then (\<forall>ids. tool_ids_follow answered_ids ids app)
           else app = [])"
      by (intro exI[of _ "ms @ app"]) simp
  qed
next
  case (finalize env st w)
  then show ?case by (simp add: ainvoke_finalize finalize_response_def)
next
  case (END env st w)
  then show ?case by (simp add: ainvoke_END)
qed

lemma retrieve_context_keeps:
  "retrieve_context env st w = (Inr st1, w1) \<Longrightarrow>
     length (messages st1) = length (messages st) \<and> tool_calls st1 = tool_calls st"
  by (auto simp: retrieve_context_def retrieve_context_try_def
           split: sum.splits if_splits prod.splits)

lemma tool_ids_follow_cong:
  "list_all (\<lambda>m. f m = g m) ms \<Longrightarrow> tool_ids_follow f ids ms = tool_ids_follow g ids ms"
  by (induction ms arbitrary: ids) auto

lemma has_id_call_id: "has_id tc \<Longrightarrow> declared_id tc = [call_id tc]"
  by (cases tc) (auto simp: has_id_def declared_id_def call_id_def split: option.splits)

lemma identified_ids: "list_all has_id tcs \<Longrightarrow> concat (map declared_id tcs) = map call_id tcs"
  by (induction tcs) (auto simp: has_id_call_id)

lemma all_identified_ids: "all_identified m \<Longrightarrow> answered_ids m = declared_ids m"
  by (auto simp: all_identified_def answered_ids_def declared_ids_def ids_of_def identified_ids
           split: option.splits json.splits)

section \<open>Generation failure\<close>

text \<open>
  Claim C1. When the completion call raises, \<^verbatim>\<open>_generate_response\<close> appends an
  assistant-role message that explains the error and marks the step \<^verbatim>\<open>error\<close>; the turn is
  not retried and nothing is raised to the caller. The status that \<^verbatim>\<open>process_request\<close>
  returns is nevertheless \<^verbatim>\<open>success\<close>: \<^verbatim>\<open>finalize\<close> overwrites the step, and the status is
  taken from the presence of an assistant-role message, which the error message itself
  is. The evaluation below is the turn \<open>Hello\<close> against a completion endpoint that is down.
\<close>

theorem generation_failure_reported_as_success:
  "process_request offline_env hello 3 () =
     (\<lparr>response = JStr ''Error generating response: LLM request failed: connection refused'',
       r_tool_calls = Some (JArr []),
       r_messages =
         [\<lparr>role = ''user'', content = JStr ''Hello'', m_tool_calls = None, m_tool_call_id = None\<rparr>,
          \<lparr>role = ''assistant'',
           content = JStr ''Error generating response: LLM request failed: connection refused'',
           m_tool_calls = None, m_tool_call_id = None\<rparr>],
       status = ''success''\<rparr>, ())"
  by (simp add: ainvoke.simps agent_defs scenario_defs)

section \<open>Iteration budget\<close>

text \<open>
  Claim C2. After generation the graph takes the \<^verbatim>\<open>tools\<close> branch exactly when the pending
  tool calls are non-empty and \<open>iteration_count < max_iterations\<close>; every run of
  \<^verbatim>\<open>execute_tools\<close> that returns raises \<open>iteration_count\<close> by exactly one; and a turn
  executes \<^verbatim>\<open>execute_tools\<close> at most \<open>max_iterations\<close> times, the final \<open>iteration_count\<close>
  being the number of tool cycles performed. The run itself always ends: \<open>ainvoke\<close> is a
  total function, by the termination proof above.
\<close>

theorem iteration_budget:
  "(should_use_tools state = ''tools'' \<longleftrightarrow>
      py_truthy (tool_calls state) \<and> iteration_count state < max_iterations state)
   \<and> (should_use_tools (state\<lparr>tool_calls := JArr tcs\<rparr>) = ''tools'' \<longleftrightarrow>
        tcs \<noteq> [] \<and> iteration_count state < max_iterations state)
   \<and> (\<forall>state' w'. execute_tools env state w = (Inr state', w') \<longrightarrow>
         iteration_count state' = iteration_count state + 1)
   \<and> (\<forall>out w' tr. ainvoke env N_analyze (initial_state msgs max_it) w = (out, w', tr) \<longrightarrow>
         count_list tr N_execute_tools \<le> nat max_it
         \<and> (\<forall>final. out = Inr final \<longrightarrow>
               iteration_count final = int (count_list tr N_execute_tools)))"
proof (intro conjI allI impI)
  show "should_use_tools state = ''tools'' \<longleftrightarrow>
      py_truthy (tool_calls state) \<and> iteration_count state < max_iterations state"
    by (simp add: should_use_tools_def)
  show "should_use_tools (state\<lparr>tool_calls := JArr tcs\<rparr>) = ''tools'' \<longleftrightarrow>
        tcs \<noteq> [] \<and> iteration_count state < max_iterations state"
    by (simp add: should_use_tools_def)
next
  fix state' w'
  assume "execute_tools env state w = (Inr state', w')"
  then show "iteration_count state' = iteration_count state + 1"
    by (simp add: execute_tools_counts)
next
  fix out w' tr
  assume run: "ainvoke env N_analyze (initial_state msgs max_it) w = (out, w', tr)"
  from ainvoke_tool_cycles[rule_format, OF run]
  show "count_list tr N_execute_tools \<le> nat max_it"
    by (simp add: cycle_bound_def initial_state_def)
  fix final
  assume "out = Inr final"
  with ainvoke_tool_cycles[rule_format, OF run]
  show "iteration_count final = int (count_list tr N_execute_tools)"
    by simp
qed

theorem iteration_budget_witness:
  "should_use_tools ((initial_state hello 3)\<lparr>tool_calls := JArr [get_map_call]\<rparr>) = ''tools''
   \<and> (\<exists>state'. execute_tools insistent_env
          ((initial_state hello 3)\<lparr>tool_calls := JArr [get_map_call]\<rparr>) () = (Inr state', ())
        \<and> iteration_count state' = 1)
   \<and> (\<exists>final tr. ainvoke insistent_env N_analyze (initial_state hello 3) () = (Inr final, (), tr)
        \<and> count_list tr N_execute_tools = 3 \<and> iteration_count final = 3)"
proof -
  let ?st = "(initial_state hello 3)\<lparr>tool_calls := JArr [get_map_call]\<rparr>"
  note b = iteration_budget [of ?st "[get_map_call]" insistent_env "()" hello 3]
  have d: "should_use_tools ?st = ''tools''"
    using b by (simp add: initial_state_def)
  obtain state' where e: "execute_tools insistent_env ?st () = (Inr state', ())"
    by (simp add: agent_defs registry_defs scenario_defs)
  with b have e1: "iteration_count state' = 1"
    by (simp add: initial_state_def)
  obtain final where r: "ainvoke insistent_env N_analyze (initial_state hello 3) () =
     (Inr final, (),
      [N_analyze, N_retrieve, N_generate_response, N_execute_tools, N_generate_response,
       N_execute_tools, N_generate_response, N_execute_tools, N_generate_response, N_finalize])"
    by (simp add: ainvoke.simps agent_defs registry_defs scenario_defs)
  with b have "iteration_count final = 3" by simp
  with d e e1 r show ?thesis by simp
qed

section \<open>The final answer\<close>




section \<open>Tool results\<close>

text \<open>
  Claim C4. Every \<^verbatim>\<open>ToolResponse\<close> that \<^verbatim>\<open>execute_tool\<close> returns, for any tool name, call
  id and arguments, has exactly one of \<^verbatim>\<open>result\<close> and \<^verbatim>\<open>error\<close> set: either the result is
  the value a tool returned (never \<^verbatim>\<open>None\<close>, and truthy: a non-empty dict) and the error
  is \<^verbatim>\<open>None\<close>, or the result is \<^verbatim>\<open>None\<close> and the error is a text.
\<close>

theorem tool_response_exclusive:
  "execute_tool env tool_name cid arguments w = (Inr r, w') \<Longrightarrow>
     (py_truthy (result r) \<and> result r \<noteq> JNull \<and> error r = None)
     \<or> (result r = JNull \<and> (\<exists>t. error r = Some t))"
proof -
  assume ex: "execute_tool env tool_name cid arguments w = (Inr r, w')"
  show ?thesis
  proof (cases "execute_tool_try env tool_name cid arguments w")
    case (Pair x w1)
    show ?thesis
    proof (cases x)
      case (Inl e)
      with Pair ex show ?thesis
        by (auto simp: execute_tool_def ToolResponse_init_def split: json.splits)
    next
      case (Inr r1)
      with Pair ex have r: "r1 = r" by (simp add: execute_tool_def)
      from Pair Inr r show ?thesis
        by (auto simp: execute_tool_try_def ToolResponse_init_def
                 split: if_splits option.splits prod.splits sum.splits json.splits
                 dest: call_tool_truthy)
    qed
  qed
qed

theorem tool_response_exclusive_witness:
  "execute_tool offline_env (JStr ''get_map'') (JStr ''c1'')
      (JObj [(''key'', JStr ''engine_params'')]) () =
     (Inr \<lparr>tool_call_id = ''c1'',
           result = JObj [(''key'', JStr ''engine_params''),
                          (''data'', JObj [(''rpm'', JInt 2500), (''temperature'', JInt 85),
                                           (''pressure'', JFloat (23 / 10))])],
           error = None\<rparr>, ())
   \<and> execute_tool offline_env (JStr ''does_not_exist'') (JStr ''c2'') (JObj []) () =
     (Inr \<lparr>tool_call_id = ''c2'', result = JNull,
           error = Some ''Unknown tool: does_not_exist''\<rparr>, ())"
proof -
  have a: "execute_tool offline_env (JStr ''get_map'') (JStr ''c1'')
      (JObj [(''key'', JStr ''engine_params'')]) () =
     (Inr \<lparr>tool_call_id = ''c1'',
           result = JObj [(''key'', JStr ''engine_params''),
                          (''data'', JObj [(''rpm'', JInt 2500), (''temperature'', JInt 85),
                                           (''pressure'', JFloat (23 / 10))])],
           error = None\<rparr>, ())"
    by (simp add: registry_defs str_json_def)
  have b: "execute_tool offline_env (JStr ''does_not_exist'') (JStr ''c2'') (JObj []) () =
     (Inr \<lparr>tool_call_id = ''c2'', result = JNull,
           error = Some ''Unknown tool: does_not_exist''\<rparr>, ())"
    by (simp add: registry_defs str_json_def)
  from tool_response_exclusive [OF a] tool_response_exclusive [OF b] a b
  show ?thesis by simp
qed

section \<open>Dispatch failures are values\<close>

text \<open>
  Claim C5. For every tool name, every call id that is a string (as the signature
  declares) and every argument value, \<^verbatim>\<open>execute_tool\<close> returns a \<^verbatim>\<open>ToolResponse\<close>. For a
  name that is not registered the response has the error \<^verbatim>\<open>Unknown tool: <name>\<close> and no
  result. A fault that leaves the call of a registered tool (a fault of the argument
  mapping included) comes back as the error text of the response. A fault raised inside
  \<^verbatim>\<open>file_operations\<close> does not get that far: the tool catches it itself and returns it
  inside its result, as \<^verbatim>\<open>{"error": text}\<close>, and the error of the response stays \<^verbatim>\<open>None\<close>.
\<close>

theorem execute_tool_never_raises:
  "(\<exists>r w'. execute_tool env tool_name (JStr cid) arguments w = (Inr r, w'))
   \<and> (name \<notin> set tool_names \<longrightarrow>
        execute_tool env (JStr name) (JStr cid) arguments w =
          (Inr \<lparr>tool_call_id = cid, result = JNull,
                error = Some (''Unknown tool: '' @ name)\<rparr>, w))
   \<and> (\<forall>e w'. name \<in> set tool_names \<longrightarrow> call_tool env name arguments w = (Inl e, w') \<longrightarrow>
        execute_tool env (JStr name) (JStr cid) arguments w =
          (Inr \<lparr>tool_call_id = cid, result = JNull, error = Some (str_exc env e)\<rparr>, w'))
   \<and> (\<forall>e w' kvs. arguments = JObj kvs \<longrightarrow>
        bind_kwargs [''operation'', ''path''] [''content''] kvs = Inr () \<longrightarrow>
        file_operations_try env (kwarg kvs ''operation'') (kwarg kvs ''path'')
          (kwarg kvs ''content'') w = (Inl e, w') \<longrightarrow>
        execute_tool env (JStr ''file_operations'') (JStr cid) arguments w =
          (Inr \<lparr>tool_call_id = cid, result = JObj [(''error'', JStr (str_exc env e))],
                error = None\<rparr>, w'))"
proof (intro conjI allI impI)
  show "\<exists>r w'. execute_tool env tool_name (JStr cid) arguments w = (Inr r, w')"
    by (rule execute_tool_returns)
next
  assume "name \<notin> set tool_names"
  then show "execute_tool env (JStr name) (JStr cid) arguments w =
          (Inr \<lparr>tool_call_id = cid, result = JNull,
                error = Some (''Unknown tool: '' @ name)\<rparr>, w)"
    by (rule execute_tool_unknown)
next
  fix e w'
  assume "name \<in> set tool_names" "call_tool env name arguments w = (Inl e, w')"
  then show "execute_tool env (JStr name) (JStr cid) arguments w =
          (Inr \<lparr>tool_call_id = cid, result = JNull, error = Some (str_exc env e)\<rparr>, w')"
    by (simp add: execute_tool_known)
next
  fix e w' kvs
  assume "arguments = JObj kvs"
    "bind_kwargs [''operation'', ''path''] [''content''] kvs = Inr ()"
    "file_operations_try env (kwarg kvs ''operation'') (kwarg kvs ''path'')
          (kwarg kvs ''content'') w = (Inl e, w')"
  then show "execute_tool env (JStr ''file_operations'') (JStr cid) arguments w =
          (Inr \<lparr>tool_call_id = cid, result = JObj [(''error'', JStr (str_exc env e))],
                error = None\<rparr>, w')"
    by (simp add: execute_tool_known tool_names_def call_tool_def file_operations_def)
qed

theorem execute_tool_never_raises_witness:
  "execute_tool offline_env (JStr ''does_not_exist'') (JStr ''c2'') (JObj []) () =
     (Inr \<lparr>tool_call_id = ''c2'', result = JNull,
           error = Some ''Unknown tool: does_not_exist''\<rparr>, ())
   \<and> call_tool offline_env ''get_map'' (JObj []) () = (Inl TypeError, ())
   \<and> execute_tool offline_env (JStr ''get_map'') (JStr ''c4'') (JObj []) () =
     (Inr \<lparr>tool_call_id = ''c4'', result = JNull, error = Some ''<exception>''\<rparr>, ())
   \<and> execute_tool offline_env (JStr ''file_operations'') (JStr ''c3'') write_arguments () =
     (Inr \<lparr>tool_call_id = ''c3'',
           result = JObj [(''error'', JStr ''read-only file system'')],
           error = None\<rparr>, ())"
proof -
  have n: "''does_not_exist'' \<notin> set tool_names" by (simp add: tool_names_def)
  have g: "''get_map'' \<in> set tool_names" by (simp add: tool_names_def)
  have c: "call_tool offline_env ''get_map'' (JObj []) () = (Inl TypeError, ())"
    by (simp add: call_tool_def bind_kwargs_def)
  have b: "bind_kwargs [''operation'', ''path''] [''content'']
             [(''operation'', JStr ''write''), (''path'', JStr ''/tmp/out.txt''),
              (''content'', JStr ''hi'')] = Inr ()"
    by (simp add: bind_kwargs_def)
  have f: "file_operations_try offline_env (JStr ''write'') (JStr ''/tmp/out.txt'') (JStr ''hi'') () =
     (Inl (Raised ''read-only file system''), ())"
    by (simp add: file_operations_try_def offline_env_def)
  note t1 = execute_tool_never_raises [of offline_env "JObj []" "''c2''" "JObj []" "()" "''does_not_exist''"]
  note t2 = execute_tool_never_raises [of offline_env "JObj []" "''c4''" "JObj []" "()" "''get_map''"]
  note t3 = execute_tool_never_raises [of offline_env "JObj []" "''c3''" write_arguments "()" "''get_map''"]
  from t1 n have r1: "execute_tool offline_env (JStr ''does_not_exist'') (JStr ''c2'') (JObj []) () =
     (Inr \<lparr>tool_call_id = ''c2'', result = JNull,
           error = Some ''Unknown tool: does_not_exist''\<rparr>, ())"
    by simp
  from t2 g c have r2: "execute_tool offline_env (JStr ''get_map'') (JStr ''c4'') (JObj []) () =
     (Inr \<lparr>tool_call_id = ''c4'', result = JNull, error = Some ''<exception>''\<rparr>, ())"
    by (simp add: str_exc_def offline_env_def)
  from t3 b f have r3: "execute_tool offline_env (JStr ''file_operations'') (JStr ''c3'') write_arguments () =
     (Inr \<lparr>tool_call_id = ''c3'',
           result = JObj [(''error'', JStr ''read-only file system'')],
           error = None\<rparr>, ())"
    by (simp add: write_arguments_def kwarg_def str_exc_def)
  from r1 c r2 r3 show ?thesis by simp
qed

text \<open>
  Writing a file on a read-only file system: the fault is raised inside the tool body, and
  the response carries it in \<^verbatim>\<open>result\<close>, with \<^verbatim>\<open>error\<close> unset.
\<close>

theorem tool_fault_inside_result:
  "file_operations_try offline_env (JStr ''write'') (JStr ''/tmp/out.txt'') (JStr ''hi'') () =
     (Inl (Raised ''read-only file system''), ())
   \<and> execute_tool offline_env (JStr ''file_operations'') (JStr ''c3'') write_arguments () =
     (Inr \<lparr>tool_call_id = ''c3'',
           result = JObj [(''error'', JStr ''read-only file system'')],
           error = None\<rparr>, ())"
  by (simp add: registry_defs str_exc_def write_arguments_def scenario_defs)

section \<open>Retrieval is best effort\<close>

text \<open>
  Claim C6. A failure of the retrieval does not abort the turn. Whatever exception the
  \<^verbatim>\<open>try\<close> block of \<^verbatim>\<open>_retrieve_context\<close> raises, the node returns the state with its messages
  untouched. In particular, when the search of the vector store raises, the graph goes on
  to \<^verbatim>\<open>generate_response\<close> with the message list \<^verbatim>\<open>process_request\<close> built, and when the
  model then answers without asking for a tool, the turn returns that answer with status
  \<^verbatim>\<open>success\<close>.
\<close>

theorem retrieval_failure_is_absorbed:
  "(messages st \<noteq> [] \<longrightarrow>
      retrieve_context_try env (messages st) (content (last (messages st))) w = (Inl e, w1) \<longrightarrow>
        retrieve_context env st w = (Inr (st\<lparr>current_step := ''context_retrieved''\<rparr>), w1))
   \<and> (msgs \<noteq> [] \<longrightarrow>
        vector_store_search env (JStr (cm_content (last msgs))) 3 w = (Inl e, w1) \<longrightarrow>
          ainvoke env N_analyze (initial_state msgs max_it) w =
            visit N_analyze (visit N_retrieve
              (ainvoke env N_generate_response
                 ((initial_state msgs max_it)\<lparr>current_step := ''context_retrieved''\<rparr>) w1))
          \<and> (\<forall>resp w2 msg a t.
                chat_completion env (message_dicts msgs) w1 = (Inr resp, w2) \<longrightarrow>
                extract_message resp = Inr msg \<longrightarrow> ai_message_of msg = Inr a \<longrightarrow>
                m_tool_calls a = Some t \<longrightarrow> \<not> py_truthy t \<longrightarrow>
                  process_request env msgs max_it w =
                    (\<lparr>response = content a, r_tool_calls = Some t,
                      r_messages = message_dicts msgs @ [a], status = ''success''\<rparr>, w2)))"
proof (intro conjI allI impI)
  assume "messages st \<noteq> []"
    "retrieve_context_try env (messages st) (content (last (messages st))) w = (Inl e, w1)"
  then show "retrieve_context env st w = (Inr (st\<lparr>current_step := ''context_retrieved''\<rparr>), w1)"
    by (rule retrieve_context_failure)
next
  assume ne: "msgs \<noteq> []"
    and s: "vector_store_search env (JStr (cm_content (last msgs))) 3 w = (Inl e, w1)"
  let ?st0 = "initial_state msgs max_it"
  let ?st1 = "?st0\<lparr>current_step := ''analyzed'', iteration_count := 0\<rparr>"
  let ?st2 = "?st0\<lparr>current_step := ''context_retrieved''\<rparr>"
  have m: "messages ?st1 = message_dicts msgs" by (simp add: initial_state_def)
  from ne have ne': "messages ?st1 \<noteq> []" by (simp add: m message_dicts_def)
  from s ne have "retrieve_context_try env (messages ?st1) (content (last (messages ?st1))) w = (Inl e, w1)"
    by (simp add: m message_dicts_last search_failure)
  from retrieve_context_failure[OF ne' this]
  have r: "retrieve_context env ?st1 w = (Inr ?st2, w1)"
    by (simp add: initial_state_def)
  show run: "ainvoke env N_analyze ?st0 w =
            visit N_analyze (visit N_retrieve (ainvoke env N_generate_response ?st2 w1))"
    by (simp add: ainvoke_analyze ainvoke_retrieve[OF r])
  fix resp w2 msg a t
  assume c: "chat_completion env (message_dicts msgs) w1 = (Inr resp, w2)"
    and x: "extract_message resp = Inr msg" and a: "ai_message_of msg = Inr a"
    and t: "m_tool_calls a = Some t" "\<not> py_truthy t"
  have m2: "messages ?st2 = message_dicts msgs" by (simp add: initial_state_def)
  have tc: "\<not> py_truthy (tool_calls ?st2)" by (simp add: initial_state_def)
  from c have c': "chat_completion env (messages ?st2) w1 = (Inr resp, w2)" by (simp add: m2)
  from ai_message_of_shape[OF a] have ra: "role a = ''assistant''" by simp
  from plain_answer_completes[OF c' x a t tc] run ra t
  show "process_request env msgs max_it w =
          (\<lparr>response = content a, r_tool_calls = Some t,
            r_messages = message_dicts msgs @ [a], status = ''success''\<rparr>, w2)"
    by (simp add: process_request_def visit_def build_response_def m2)
qed

theorem retrieval_failure_is_absorbed_witness:
  "vector_store_search greeting_env (JStr (cm_content (last hello))) 3 () =
     (Inl (Raised ''Search failed: connection refused''), ())
   \<and> process_request greeting_env hello 3 () =
     (\<lparr>response = JStr ''Hi there'', r_tool_calls = Some (JArr []),
       r_messages =
         [\<lparr>role = ''user'', content = JStr ''Hello'', m_tool_calls = None, m_tool_call_id = None\<rparr>,
          \<lparr>role = ''assistant'', content = JStr ''Hi there'', m_tool_calls = Some (JArr []),
           m_tool_call_id = None\<rparr>],
       status = ''success''\<rparr>, ())"
proof -
  let ?a = "\<lparr>role = ''assistant'', content = JStr ''Hi there'', m_tool_calls = Some (JArr []),
           m_tool_call_id = None\<rparr>"
  let ?msg = "JObj [(''role'', JStr ''assistant''), (''content'', JStr ''Hi there''),
                    (''tool_calls'', JArr [])]"
  have ne: "hello \<noteq> []" by (simp add: hello_def)
  have s: "vector_store_search greeting_env (JStr (cm_content (last hello))) 3 () =
     (Inl (Raised ''Search failed: connection refused''), ())"
    by (simp add: greeting_env_def offline_env_def)
  have c: "chat_completion greeting_env (message_dicts hello) () =
     (Inr (completion (JStr ''Hi there'') (JArr [])), ())"
    by (simp add: greeting_env_def offline_env_def)
  have x: "extract_message (completion (JStr ''Hi there'') (JArr [])) = Inr ?msg"
    by (simp add: extract_message_def completion_def)
  have a: "ai_message_of ?msg = Inr ?a" by (simp add: ai_message_of_def)
  from retrieval_failure_is_absorbed
         [where env = greeting_env and msgs = hello and w = "()" and ?w1.0 = "()"
            and e = "Raised ''Search failed: connection refused''" and max_it = 3]
       ne s c x a
  have "process_request greeting_env hello 3 () =
     (\<lparr>response = content ?a, r_tool_calls = Some (JArr []),
       r_messages = message_dicts hello @ [?a], status = ''success''\<rparr>, ())"
    by auto
  with s show ?thesis by (simp add: message_dicts_def hello_def)
qed

section \<open>A batch of tool calls\<close>

text \<open>
  Claim C8. With the pending tool calls a list of dicts, as \<^verbatim>\<open>AgentState\<close> declares them,
  \<^verbatim>\<open>_execute_tools\<close> returns, and what it appends is exactly what the loop body yields for
  each call in turn: the \<open>i\<close>-th appended message is the message of the \<open>i\<close>-th call, computed
  in the world the calls before it left, and the world after the batch is the world after
  the last call. So there is one tool-role message per call, in the order of the calls,
  each with the identifier of its call; the pending calls are cleared and one iteration is
  counted. A call whose parts are read and whose dispatch to the registry returns a
  response gets the serialised result when the response has no error, and the error text
  otherwise, and leaves the world the registry left; a call whose parts cannot be read
  gets the text of the exception, and the loop goes on with the next call.
\<close>

theorem tool_batch:
  "(tool_calls st = JArr tcs \<longrightarrow> list_all is_object tcs \<longrightarrow>
      (\<exists>ms ws. execute_tools env st w =
          (Inr (st\<lparr>messages := messages st @ ms, tool_calls := JArr [],
                   iteration_count := iteration_count st + 1,
                   current_step := ''tools_executed''\<rparr>), last ws)
        \<and> length ms = length tcs \<and> length ws = Suc (length tcs) \<and> ws ! 0 = w
        \<and> (\<forall>i<length tcs.
              run_tool_call env (tcs ! i) (ws ! i) = (Inr (ms ! i), ws ! Suc i))
        \<and> list_all2 answers tcs ms))
   \<and> tool_loop env (tcs1 @ tcs2) msgs w =
       (case tool_loop env tcs1 msgs w of
          ((None, msgs1), w1) \<Rightarrow> tool_loop env tcs2 msgs1 w1
        | ((Some e, msgs1), w1) \<Rightarrow> ((Some e, msgs1), w1))
   \<and> (\<forall>tool_name arguments cid res w1.
        tool_call_parts env tc = Inr (tool_name, arguments, cid) \<longrightarrow>
        execute_tool env tool_name cid arguments w = (Inr res, w1) \<longrightarrow>
          run_tool_call env tc w =
            (Inr \<lparr>role = ''tool'',
                  content = (case error res of
                               None \<Rightarrow> JStr (json_dumps env (result res))
                             | Some t \<Rightarrow> JStr t),
                  m_tool_calls = None, m_tool_call_id = Some cid\<rparr>, w1))
   \<and> (\<forall>e. is_object tc \<longrightarrow> tool_call_parts env tc = Inl e \<longrightarrow>
          run_tool_call env tc w =
            (Inr \<lparr>role = ''tool'',
                  content = JStr (''Tool execution error: '' @ str_exc env e),
                  m_tool_calls = None, m_tool_call_id = Some (call_id tc)\<rparr>, w))"
proof (intro conjI allI impI)
  assume tc: "tool_calls st = JArr tcs" and ob: "list_all is_object tcs"
  from tool_loop_objects[OF ob, of env "messages st" w]
  obtain msgs' w' where l: "tool_loop env tcs (messages st) w = ((None, msgs'), w')" by blast
  from tool_loop_run[OF l] obtain ms ws where run: "msgs' = messages st @ ms"
    "length ms = length tcs" "length ws = Suc (length tcs)" "ws ! 0 = w" "last ws = w'"
    "\<forall>i<length tcs. run_tool_call env (tcs ! i) (ws ! i) = (Inr (ms ! i), ws ! Suc i)"
    by blast
  from tool_loop_answers[OF l] run(1) have a: "list_all2 answers tcs ms" by auto
  from tc l run have "execute_tools env st w =
          (Inr (st\<lparr>messages := messages st @ ms, tool_calls := JArr [],
                   iteration_count := iteration_count st + 1,
                   current_step := ''tools_executed''\<rparr>), last ws)"
    by (simp add: execute_tools_def)
  with run a show "\<exists>ms ws. execute_tools env st w =
          (Inr (st\<lparr>messages := messages st @ ms, tool_calls := JArr [],
                   iteration_count := iteration_count st + 1,
                   current_step := ''tools_executed''\<rparr>), last ws)
        \<and> length ms = length tcs \<and> length ws = Suc (length tcs) \<and> ws ! 0 = w
        \<and> (\<forall>i<length tcs.
              run_tool_call env (tcs ! i) (ws ! i) = (Inr (ms ! i), ws ! Suc i))
        \<and> list_all2 answers tcs ms"
    by blast
next
  show "tool_loop env (tcs1 @ tcs2) msgs w =
       (case tool_loop env tcs1 msgs w of
          ((None, msgs1), w1) \<Rightarrow> tool_loop env tcs2 msgs1 w1
        | ((Some e, msgs1), w1) \<Rightarrow> ((Some e, msgs1), w1))"
    by (rule tool_loop_append)
next
  fix tool_name arguments cid res w1
  assume "tool_call_parts env tc = Inr (tool_name, arguments, cid)"
    "execute_tool env tool_name cid arguments w = (Inr res, w1)"
  then show "run_tool_call env tc w =
            (Inr \<lparr>role = ''tool'',
                  content = (case error res of
                               None \<Rightarrow> JStr (json_dumps env (result res))
                             | Some t \<Rightarrow> JStr t),
                  m_tool_calls = None, m_tool_call_id = Some cid\<rparr>, w1)"
    by (simp add: run_tool_call_def dispatch_tool_call_def tool_message_content_eq)
next
  fix e
  assume "is_object tc" "tool_call_parts env tc = Inl e"
  then show "run_tool_call env tc w =
            (Inr \<lparr>role = ''tool'',
                  content = JStr (''Tool execution error: '' @ str_exc env e),
                  m_tool_calls = None, m_tool_call_id = Some (call_id tc)\<rparr>, w)"
    by (cases tc) (auto simp: run_tool_call_def dispatch_tool_call_def call_id_def
                         split: option.splits)
qed

theorem tool_batch_witness:
  "tool_calls batch_state = JArr [broken_call, write_call, get_map_call]
   \<and> list_all is_object [broken_call, write_call, get_map_call]
   \<and> execute_tools recording_env batch_state [] =
       (Inr (batch_state
          \<lparr>messages :=
             [\<lparr>role = ''tool'', content = JStr ''Tool execution error: <exception>'',
               m_tool_calls = None, m_tool_call_id = Some (JStr ''c0'')\<rparr>,
              \<lparr>role = ''tool'', content = JStr ''{message;size;}'',
               m_tool_calls = None, m_tool_call_id = Some (JStr ''c2'')\<rparr>,
              \<lparr>role = ''tool'', content = JStr ''{key;data;}'',
               m_tool_calls = None, m_tool_call_id = Some (JStr ''c1'')\<rparr>],
           tool_calls := JArr [], iteration_count := 1,
           current_step := ''tools_executed''\<rparr>), [''/tmp/out.txt''])
   \<and> (\<exists>ws. length ws = 4 \<and> ws ! 0 = [] \<and> last ws = [''/tmp/out.txt'']
         \<and> run_tool_call recording_env write_call (ws ! 1) =
             (Inr \<lparr>role = ''tool'', content = JStr ''{message;size;}'',
                   m_tool_calls = None, m_tool_call_id = Some (JStr ''c2'')\<rparr>, ws ! 2))
   \<and> tool_call_parts recording_env broken_call = Inl (KeyError (JStr ''function''))
   \<and> tool_call_parts recording_env write_call =
       Inr (JStr ''file_operations'', write_arguments, JStr ''c2'')
   \<and> execute_tool recording_env (JStr ''file_operations'') (JStr ''c2'') write_arguments [] =
       (Inr \<lparr>tool_call_id = ''c2'',
             result = JObj [(''message'', JStr ''File written: /tmp/out.txt''), (''size'', JInt 2)],
             error = None\<rparr>, [''/tmp/out.txt''])"
proof -
  let ?tcs = "[broken_call, write_call, get_map_call]"
  let ?m0 = "\<lparr>role = ''tool'', content = JStr ''Tool execution error: <exception>'',
               m_tool_calls = None, m_tool_call_id = Some (JStr ''c0'')\<rparr>"
  let ?m1 = "\<lparr>role = ''tool'', content = JStr ''{message;size;}'',
               m_tool_calls = None, m_tool_call_id = Some (JStr ''c2'')\<rparr>"
  let ?m2 = "\<lparr>role = ''tool'', content = JStr ''{key;data;}'',
               m_tool_calls = None, m_tool_call_id = Some (JStr ''c1'')\<rparr>"
  have 1: "tool_calls batch_state = JArr ?tcs" by (simp add: batch_state_def)
  have 2: "list_all is_object ?tcs"
    by (simp add: broken_call_def write_call_def get_map_call_def)
  have 3: "tool_call_parts recording_env broken_call = Inl (KeyError (JStr ''function''))"
    by (simp add: tool_call_parts_def broken_call_def)
  have 4: "tool_call_parts recording_env write_call =
       Inr (JStr ''file_operations'', write_arguments, JStr ''c2'')"
    by (simp add: tool_call_parts_def py_json_loads_def recording_defs)
  have 5: "execute_tool recording_env (JStr ''file_operations'') (JStr ''c2'') write_arguments [] =
       (Inr \<lparr>tool_call_id = ''c2'',
             result = JObj [(''message'', JStr ''File written: /tmp/out.txt''), (''size'', JInt 2)],
             error = None\<rparr>, [''/tmp/out.txt''])"
    by (simp add: registry_defs recording_defs)
  have 6: "execute_tools recording_env batch_state [] =
       (Inr (batch_state
          \<lparr>messages := [?m0, ?m1, ?m2],
           tool_calls := JArr [], iteration_count := 1,
           current_step := ''tools_executed''\<rparr>), [''/tmp/out.txt''])"
    by (simp add: agent_defs registry_defs recording_defs batch_state_def)
  note t = tool_batch [of batch_state ?tcs recording_env "[]" "[]" "[]" "[]" write_call]
  from t 1 2 obtain ms ws where e: "execute_tools recording_env batch_state [] =
          (Inr (batch_state\<lparr>messages := messages batch_state @ ms, tool_calls := JArr [],
                   iteration_count := iteration_count batch_state + 1,
                   current_step := ''tools_executed''\<rparr>), last ws)"
    and l: "length ms = length ?tcs" "length ws = Suc (length ?tcs)" "ws ! 0 = []"
    and p: "\<forall>i<length ?tcs.
              run_tool_call recording_env (?tcs ! i) (ws ! i) = (Inr (ms ! i), ws ! Suc i)"
    by blast
  from e 6 have ms: "ms = [?m0, ?m1, ?m2]" and lw: "last ws = [''/tmp/out.txt'']"
    by (simp_all add: batch_state_def)
  from p[rule_format, of "Suc 0"] ms
  have r: "run_tool_call recording_env write_call (ws ! 1) = (Inr ?m1, ws ! 2)"
    by (simp add: numeral_2_eq_2)
  from l lw r have "\<exists>ws. length ws = 4 \<and> ws ! 0 = [] \<and> last ws = [''/tmp/out.txt'']
         \<and> run_tool_call recording_env write_call (ws ! 1) = (Inr ?m1, ws ! 2)"
    by (intro exI[of _ ws]) simp
  with 1 2 3 4 5 6 show ?thesis by simp
qed

text \<open>
  A pending entry that is not a dict: reading it raises, and so does the handler's
  \<^verbatim>\<open>tool_call.get\<close>. The node is left at once, the write that follows in the batch is never
  dispatched (no file is written, no message appended), the pending calls are not
  cleared, and the turn ends with status \<^verbatim>\<open>error\<close>.
\<close>

theorem non_dict_call_aborts_batch:
  "tool_calls stray_state = JArr [JStr ''get_map'', write_call]
   \<and> execute_tools recording_env stray_state [] = (Inl (AttributeError, []), [])
   \<and> run_tool_call recording_env write_call [] =
       (Inr \<lparr>role = ''tool'', content = JStr ''{message;size;}'',
             m_tool_calls = None, m_tool_call_id = Some (JStr ''c2'')\<rparr>, [''/tmp/out.txt''])
   \<and> process_request stray_env hello 3 [] =
       (\<lparr>response = JStr ''Agent processing failed: <exception>'',
         r_tool_calls = None,
         r_messages =
           [\<lparr>role = ''user'', content = JStr ''Hello'', m_tool_calls = None, m_tool_call_id = None\<rparr>,
            \<lparr>role = ''assistant'', content = JNull,
             m_tool_calls = Some (JArr [JStr ''get_map'', write_call]), m_tool_call_id = None\<rparr>],
         status = ''error''\<rparr>, [])"
proof (intro conjI)
  show "tool_calls stray_state = JArr [JStr ''get_map'', write_call]"
    by (simp add: stray_state_def)
  show "execute_tools recording_env stray_state [] = (Inl (AttributeError, []), [])"
    by (simp add: agent_defs stray_state_def)
  show "run_tool_call recording_env write_call [] =
       (Inr \<lparr>role = ''tool'', content = JStr ''{message;size;}'',
             m_tool_calls = None, m_tool_call_id = Some (JStr ''c2'')\<rparr>, [''/tmp/out.txt''])"
    by (simp add: agent_defs registry_defs recording_defs)
  show "process_request stray_env hello 3 [] =
       (\<lparr>response = JStr ''Agent processing failed: <exception>'',
         r_tool_calls = None,
         r_messages =
           [\<lparr>role = ''user'', content = JStr ''Hello'', m_tool_calls = None, m_tool_call_id = None\<rparr>,
            \<lparr>role = ''assistant'', content = JNull,
             m_tool_calls = Some (JArr [JStr ''get_map'', write_call]), m_tool_call_id = None\<rparr>],
         status = ''error''\<rparr>, [])"
    by (simp add: ainvoke.simps agent_defs stray_env_def recording_env_def completion_def hello_def)
qed

section \<open>Tool messages and call identifiers\<close>

text \<open>
  Claim C7. In a completed turn, every tool-role message appended after the messages the
  caller sent carries the identifier of a tool call of the most recent assistant-role
  message before it: the call's \<^verbatim>\<open>id\<close> entry, or the text \<^verbatim>\<open>unknown\<close> when the call has no such
  entry. When every tool call the model emitted has an \<^verbatim>\<open>id\<close> entry, each tool message
  therefore carries an identifier that the preceding assistant message holds.
\<close>

theorem tool_messages_answer_calls:
  "ainvoke env N_analyze (initial_state msgs max_it) w = (Inr final, w', tr) \<Longrightarrow>
     \<exists>kept app. messages final = kept @ app \<and> length kept = length msgs
        \<and> tool_ids_follow answered_ids [] app
        \<and> (list_all all_identified app \<longrightarrow> tool_ids_follow declared_ids [] app)"
proof -
  assume run: "ainvoke env N_analyze (initial_state msgs max_it) w = (Inr final, w', tr)"
  let ?st1 = "(initial_state msgs max_it)\<lparr>current_step := ''analyzed'', iteration_count := 0\<rparr>"
  obtain st2 w2 where r: "retrieve_context env ?st1 w = (Inr st2, w2)"
    using retrieve_context_returns[of env ?st1 w] by auto
  from retrieve_context_keeps[OF r]
  have k: "length (messages st2) = length msgs" "\<not> py_truthy (tool_calls st2)"
    by (simp_all add: initial_state_def message_dicts_def)
  from run obtain tr2 where g: "ainvoke env N_generate_response st2 w2 = (Inr final, w', tr2)"
    by (auto simp: ainvoke_analyze ainvoke_retrieve[OF r] visit_def split: prod.splits)
  from ainvoke_tool_ids[rule_format, OF g] k(2)
  obtain app where app: "messages final = messages st2 @ app"
    "\<forall>ids. tool_ids_follow answered_ids ids app" by auto
  have "list_all all_identified app \<longrightarrow> tool_ids_follow declared_ids [] app"
  proof
    assume "list_all all_identified app"
    then have "list_all (\<lambda>m. answered_ids m = declared_ids m) app"
      by (auto simp: list_all_iff all_identified_ids)
    from tool_ids_follow_cong[OF this, of "[]"] app(2) show "tool_ids_follow declared_ids [] app"
      by simp
  qed
  with app k(1) show ?thesis by blast
qed

theorem tool_messages_answer_calls_witness:
  "\<exists>final tr app.
      ainvoke round_trip_env N_analyze (initial_state hello 3) () = (Inr final, (), tr)
      \<and> messages final = message_dicts hello @ app
      \<and> map role app = [''assistant'', ''tool'', ''assistant'']
      \<and> map m_tool_call_id app = [None, Some (JStr ''c1''), None]
      \<and> list_all all_identified app
      \<and> tool_ids_follow answered_ids [] app
      \<and> tool_ids_follow declared_ids [] app"
proof -
  let ?a1 = "\<lparr>role = ''assistant'', content = JNull,
              m_tool_calls = Some (JArr [get_map_call]), m_tool_call_id = None\<rparr>"
  let ?t1 = "\<lparr>role = ''tool'', content = JStr ''<json>'', m_tool_calls = None,
              m_tool_call_id = Some (JStr ''c1'')\<rparr>"
  let ?a2 = "\<lparr>role = ''assistant'', content = JStr ''The engine runs at 2500 rpm.'',
              m_tool_calls = Some (JArr []), m_tool_call_id = None\<rparr>"
  obtain final tr where run: "ainvoke round_trip_env N_analyze (initial_state hello 3) () = (Inr final, (), tr)"
    and m: "messages final = message_dicts hello @ [?a1, ?t1, ?a2]"
    by (simp add: ainvoke.simps agent_defs registry_defs scenario_defs round_trip_env_def
          tool_then_answer_def)
  from tool_messages_answer_calls[OF run]
  obtain kept app where k: "messages final = kept @ app" "length kept = length hello"
    "tool_ids_follow answered_ids [] app"
    "list_all all_identified app \<longrightarrow> tool_ids_follow declared_ids [] app" by blast
  from k(1,2) have "app = drop (length hello) (messages final)" by simp
  with m have app: "app = [?a1, ?t1, ?a2]"
    by (simp add: message_dicts_def hello_def)
  have i: "list_all all_identified [?a1, ?t1, ?a2]"
    by (simp add: all_identified_def has_id_def declared_id_def get_map_call_def)
  from run m k(3,4) app i show ?thesis
    by (intro exI[of _ final] exI[of _ tr] exI[of _ "[?a1, ?t1, ?a2]"]) simp
qed

text \<open>
  The model asks for a tool in a call without \<^verbatim>\<open>id\<close>: the tool message carries \<^verbatim>\<open>unknown\<close>,
  an identifier the assistant message before it does not hold.
\<close>

theorem tool_message_with_unknown_id:
  "r_messages (fst (process_request anonymous_env hello 3 ())) =
     [\<lparr>role = ''user'', content = JStr ''Hello'', m_tool_calls = None, m_tool_call_id = None\<rparr>,
      \<lparr>role = ''assistant'', content = JNull,
       m_tool_calls = Some (JArr [anonymous_call]), m_tool_call_id = None\<rparr>,
      \<lparr>role = ''tool'', content = JStr ''Tool execution error: <exception>'',
       m_tool_calls = None, m_tool_call_id = Some (JStr ''unknown'')\<rparr>,
      \<lparr>role = ''assistant'', content = JStr ''The engine runs at 2500 rpm.'',
       m_tool_calls = Some (JArr []), m_tool_call_id = None\<rparr>]
   \<and> declared_ids \<lparr>role = ''assistant'', content = JNull,
          m_tool_calls = Some (JArr [anonymous_call]), m_tool_call_id = None\<rparr> = []
   \<and> \<not> tool_ids_follow declared_ids []
          (drop (length hello) (r_messages (fst (process_request anonymous_env hello 3 ()))))"
proof -
  have m: "r_messages (fst (process_request anonymous_env hello 3 ())) =
     [\<lparr>role = ''user'', content = JStr ''Hello'', m_tool_calls = None, m_tool_call_id = None\<rparr>,
      \<lparr>role = ''assistant'', content = JNull,
       m_tool_calls = Some (JArr [anonymous_call]), m_tool_call_id = None\<rparr>,
      \<lparr>role = ''tool'', content = JStr ''Tool execution error: <exception>'',
       m_tool_calls = None, m_tool_call_id = Some (JStr ''unknown'')\<rparr>,
      \<lparr>role = ''assistant'', content = JStr ''The engine runs at 2500 rpm.'',
       m_tool_calls = Some (JArr []), m_tool_call_id = None\<rparr>]"
    by (simp add: ainvoke.simps agent_defs registry_defs scenario_defs anonymous_env_def
          tool_then_answer_def anonymous_call_def)
  have d: "declared_ids \<lparr>role = ''assistant'', content = JNull,
          m_tool_calls = Some (JArr [anonymous_call]), m_tool_call_id = None\<rparr> = []"
    by (simp add: declared_ids_def declared_id_def anonymous_call_def)
  from m d show ?thesis by (simp add: hello_def)
qed

section \<open>The context block\<close>

text \<open>
  Claim C9. When the search returns at least one result and every result has a text, the
  node rewrites the content of the last message of the list, whatever its role, to
  \<^verbatim>\<open>Context: <passages, one per line>\<close>, an empty line, and \<^verbatim>\<open>Query: <original content>\<close>:
  the original text stands verbatim at the end, and every other message, and every other
  key of the rewritten one, is left as it was. The query sent to the vector store is the
  content of that last message. It is the last user message only when the conversation
  ends with a user message.
\<close>

theorem context_goes_into_last_message:
  assumes "messages st = ms @ [m]" and "content m = JStr q"
    and "vector_store_search env (JStr q) 3 w = (Inr results, w1)" and "results \<noteq> []"
    and "list_all2 (\<lambda>r p. py_getitem r ''text'' = Inr (JStr p)) results passages"
  shows "retrieve_context env st w =
     (Inr (st\<lparr>messages :=
               ms @ [m\<lparr>content := JStr (''Context: '' @ lines_joined passages
                                          @ ''\<newline>\<newline>Query: '' @ q)\<rparr>],
             current_step := ''context_retrieved''\<rparr>), w1)"
  using assms
  by (simp add: retrieve_context_def py_last_def retrieve_context_try_def texts_of_strings
        str_join_strings str_json_def)

theorem context_goes_into_last_message_witness:
  "retrieve_context retrieval_env (initial_state history 3) () =
     (Inr ((initial_state history 3)
        \<lparr>messages :=
           [\<lparr>role = ''user'', content = JStr ''What is the boost target?'',
             m_tool_calls = None, m_tool_call_id = None\<rparr>,
            \<lparr>role = ''assistant'',
             content = JStr (''Context: Boost target is 1.2 bar''
                             @ ''\<newline>\<newline>Query: Let me check.''),
             m_tool_calls = None, m_tool_call_id = None\<rparr>],
         current_step := ''context_retrieved''\<rparr>), ())"
proof -
  let ?u = "\<lparr>role = ''user'', content = JStr ''What is the boost target?'',
             m_tool_calls = None, m_tool_call_id = None\<rparr>"
  let ?m = "\<lparr>role = ''assistant'', content = JStr ''Let me check.'',
             m_tool_calls = None, m_tool_call_id = None\<rparr>"
  have 1: "messages (initial_state history 3) = [?u] @ [?m]"
    by (simp add: initial_state_def message_dicts_def history_def)
  have 2: "content ?m = JStr ''Let me check.''" by simp
  have 3: "vector_store_search retrieval_env (JStr ''Let me check.'') 3 () = (Inr [boost_passage], ())"
    by (simp add: retrieval_env_def greeting_env_def offline_env_def)
  have 4: "[boost_passage] \<noteq> []" by simp
  have 5: "list_all2 (\<lambda>r p. py_getitem r ''text'' = Inr (JStr p)) [boost_passage]
             [''Boost target is 1.2 bar'']"
    by (simp add: boost_passage_def)
  from context_goes_into_last_message [OF 1 2 3 4 5] show ?thesis by simp
qed

text \<open>
  A conversation that ends with an assistant message: the context goes into that message,
  and the last user message stays as it was.
\<close>

theorem last_user_message_left_alone:
  "\<exists>st. retrieve_context retrieval_env (initial_state history 3) () = (Inr st, ())
     \<and> messages st ! 0 =
         \<lparr>role = ''user'', content = JStr ''What is the boost target?'',
          m_tool_calls = None, m_tool_call_id = None\<rparr>
     \<and> messages st ! 1 =
         \<lparr>role = ''assistant'',
          content = JStr (''Context: Boost target is 1.2 bar''
                          @ ''\<newline>\<newline>Query: Let me check.''),
          m_tool_calls = None, m_tool_call_id = None\<rparr>"
  by (simp add: agent_defs scenario_defs retrieval_env_def greeting_env_def boost_passage_def
        history_def)

section \<open>Empty conversation\<close>

text \<open>
  Claim C10. A turn started with the empty message list does not fail on indexing:
  \<^verbatim>\<open>analyze\<close> takes the empty string instead of the last message, \<^verbatim>\<open>retrieve\<close> returns
  without calling the vector store (the outside world is unchanged), the graph goes on to
  \<^verbatim>\<open>generate_response\<close> with the empty list, and no run ends in an \<^verbatim>\<open>IndexError\<close>.
\<close>

theorem empty_turn_reaches_generation:
  "analyzed_text (messages (initial_state [] max_it)) = Inr (JStr [])
   \<and> analyze_input (initial_state [] max_it) =
       Inr ((initial_state [] max_it)\<lparr>current_step := ''analyzed''\<rparr>)
   \<and> retrieve_context env ((initial_state [] max_it)\<lparr>current_step := ''analyzed''\<rparr>) w =
       (Inr ((initial_state [] max_it)\<lparr>current_step := ''context_retrieved''\<rparr>), w)
   \<and> ainvoke env N_analyze (initial_state [] max_it) w =
       visit N_analyze (visit N_retrieve
         (ainvoke env N_generate_response
            ((initial_state [] max_it)\<lparr>current_step := ''context_retrieved''\<rparr>) w))
   \<and> (\<forall>ms. fst (ainvoke env N_analyze (initial_state [] max_it) w) \<noteq> Inl (IndexError, ms))"
proof (intro conjI allI)
  show "analyzed_text (messages (initial_state [] max_it)) = Inr (JStr [])"
    by (simp add: analyzed_text_def initial_state_def message_dicts_def)
  show "analyze_input (initial_state [] max_it) =
       Inr ((initial_state [] max_it)\<lparr>current_step := ''analyzed''\<rparr>)"
    by (simp add: analyze_input_eq initial_state_def)
  have r: "retrieve_context env ((initial_state [] max_it)\<lparr>current_step := ''analyzed''\<rparr>) w =
       (Inr ((initial_state [] max_it)\<lparr>current_step := ''context_retrieved''\<rparr>), w)"
    by (simp add: retrieve_context_def initial_state_def message_dicts_def)
  then show "retrieve_context env ((initial_state [] max_it)\<lparr>current_step := ''analyzed''\<rparr>) w =
       (Inr ((initial_state [] max_it)\<lparr>current_step := ''context_retrieved''\<rparr>), w)" .
  have "(initial_state [] max_it)\<lparr>current_step := ''analyzed'', iteration_count := 0\<rparr>
        = (initial_state [] max_it)\<lparr>current_step := ''analyzed''\<rparr>"
    by (simp add: initial_state_def)
  then show "ainvoke env N_analyze (initial_state [] max_it) w =
       visit N_analyze (visit N_retrieve
         (ainvoke env N_generate_response
            ((initial_state [] max_it)\<lparr>current_step := ''context_retrieved''\<rparr>) w))"
    by (simp add: ainvoke_analyze ainvoke_retrieve[OF r])
next
  fix ms
  show "fst (ainvoke env N_analyze (initial_state [] max_it) w) \<noteq> Inl (IndexError, ms)"
    using ainvoke_fault [of env N_analyze "initial_state [] max_it" w]
    by (cases "ainvoke env N_analyze (initial_state [] max_it) w") auto
qed

end
